theory Spec2Isabelle
  imports Complex_Main "HOL-Library.Word"
begin

unbundle bit_operations_syntax

section \<open>The reference nonbonded kernel: inner loop over one cluster pair\<close>

text \<open>
  The inner loop (\<^verbatim>\<open>src/unnamed/part_000\<close>) is a fragment that the surrounding kernel
  includes once per preprocessor configuration.  The macros that select the variant are
  the fields of \<open>config\<close>; \<open>EXCL_FORCES\<close> is derived from them exactly as lines 40--42
  derive it.  The C type \<^verbatim>\<open>real\<close> is idealised as the mathematical reals, C \<^verbatim>\<open>int\<close>
  indices as integers, and every array as a total function from the index to the
  element (the kernel trusts the caller for the bounds).
\<close>

record config =
  CHECK_EXCLS :: bool
  CALC_COULOMB :: bool
  CALC_COUL_RF :: bool
  CALC_ENERGIES :: bool
  ENERGY_GROUPS :: bool
  HALF_LJ :: bool
  COUNT_PAIRS :: bool

definition EXCL_FORCES :: "config \<Rightarrow> bool" where
  "EXCL_FORCES cfg = (CHECK_EXCLS cfg \<and> CALC_COULOMB cfg)"

text \<open>
  Everything the fragment reads and never writes.  \<open>cj_c\<close> and \<open>cj_excl\<close> are
  \<^verbatim>\<open>l_cj[cjind].c\<close> and \<^verbatim>\<open>l_cj[cjind].excl\<close>; \<open>nbat_x\<close>, \<open>nbat_q\<close> and \<open>nbat_type\<close> are the
  arrays the source calls \<^verbatim>\<open>x\<close>, \<^verbatim>\<open>q\<close> and \<^verbatim>\<open>type\<close>; \<open>tabq_scale\<close> is \<^verbatim>\<open>ic->tabq_scale\<close>.
\<close>

record kernel_env =
  UNROLLI :: int
  UNROLLJ :: int
  ci :: int
  ci_sh :: int
  cj_c :: int
  cj_excl :: "32 word"
  xi :: "int \<Rightarrow> real"
  qi :: "int \<Rightarrow> real"
  egp_sh_i :: "int \<Rightarrow> int"
  nbat_x :: "int \<Rightarrow> real"
  nbat_q :: "int \<Rightarrow> real"
  nbat_type :: "int \<Rightarrow> int"
  nbat_energrp :: "int \<Rightarrow> int"
  nbfp :: "int \<Rightarrow> real"
  ntype2 :: int
  rcut2 :: real
  k_rf :: real
  k_rf2 :: real
  c_rf :: real
  tabq_scale :: real
  tab_coul_FDV0 :: "int \<Rightarrow> real"
  halfsp :: real

text \<open>
  Everything the fragment writes: the local i-cluster force accumulator \<open>fi\<close>, the
  global force buffer (\<^verbatim>\<open>f\<close> in the source, \<open>out_f\<close> here), the energy sums with and
  without energy groups, and the pair counter.
\<close>

record kernel_acc =
  fi :: "int \<Rightarrow> real"
  out_f :: "int \<Rightarrow> real"
  Vvdw_ci :: real
  Vc_ci :: real
  Vvdw :: "int \<Rightarrow> real"
  Vc :: "int \<Rightarrow> real"
  npair :: int

text \<open>
  Modelled from the spec: \<^verbatim>\<open>gmx_invsqrt\<close> is declared in a legacy header that is not part
  of the sources at hand; the specification describes it as \<open>rinv = 1/sqrt(rsq)\<close>.
\<close>

definition gmx_invsqrt :: "real \<Rightarrow> real" where
  "gmx_invsqrt v = 1 / sqrt v"

text \<open>The cast \<^verbatim>\<open>(int)rs\<close> truncates towards zero.\<close>

definition c_trunc :: "real \<Rightarrow> int" where
  "c_trunc v = (if 0 \<le> v then \<lfloor>v\<rfloor> else \<lceil>v\<rceil>)"

subsection \<open>The locals of one (i, j) iteration\<close>

text \<open>Line 90, and line 105 when \<open>CHECK_EXCLS\<close> is off.\<close>

definition pair_interact :: "config \<Rightarrow> kernel_env \<Rightarrow> int \<Rightarrow> int \<Rightarrow> int" where
  "pair_interact cfg e i j =
     (if CHECK_EXCLS cfg
      then uint (drop_bit (nat (i * UNROLLI e + j)) (cj_excl e) AND 1)
      else 1)"

text \<open>Lines 62, 64 and 108.\<close>

definition pair_ai :: "kernel_env \<Rightarrow> int \<Rightarrow> int" where
  "pair_ai e i = ci e * UNROLLI e + i"

definition type_i_off :: "kernel_env \<Rightarrow> int \<Rightarrow> int" where
  "type_i_off e i = nbat_type e (pair_ai e i) * ntype2 e"

definition pair_aj :: "kernel_env \<Rightarrow> int \<Rightarrow> int" where
  "pair_aj e j = cj_c e * UNROLLJ e + j"

text \<open>Lines 110--114.\<close>

definition pair_dx :: "kernel_env \<Rightarrow> int \<Rightarrow> int \<Rightarrow> real" where
  "pair_dx e i j = xi e (i * 3 + 0) - nbat_x e (pair_aj e j * 3 + 0)"

definition pair_dy :: "kernel_env \<Rightarrow> int \<Rightarrow> int \<Rightarrow> real" where
  "pair_dy e i j = xi e (i * 3 + 1) - nbat_x e (pair_aj e j * 3 + 1)"

definition pair_dz :: "kernel_env \<Rightarrow> int \<Rightarrow> int \<Rightarrow> real" where
  "pair_dz e i j = xi e (i * 3 + 2) - nbat_x e (pair_aj e j * 3 + 2)"

definition pair_rsq :: "kernel_env \<Rightarrow> int \<Rightarrow> int \<Rightarrow> real" where
  "pair_rsq e i j =
     pair_dx e i j * pair_dx e i j + pair_dy e i j * pair_dy e i j
       + pair_dz e i j * pair_dz e i j"

text \<open>
  The four \<^verbatim>\<open>continue\<close> statements, in the order of the source: the exclusion filter
  (lines 91--96, compiled under \<open>CHECK_EXCLS\<close> without \<open>EXCL_FORCES\<close>), the (sub-)diagonal
  filter (lines 98--102, compiled under \<open>CHECK_EXCLS\<close> with \<open>EXCL_FORCES\<close>), the cut-off
  (lines 116--119) and the guard against tiny distances (lines 120--126, compiled under
  \<open>EXCL_FORCES\<close>).
\<close>

definition pair_continue :: "config \<Rightarrow> kernel_env \<Rightarrow> int \<Rightarrow> int \<Rightarrow> bool" where
  "pair_continue cfg e i j =
     (if CHECK_EXCLS cfg \<and> \<not> EXCL_FORCES cfg \<and> pair_interact cfg e i j = 0 then True
      else if CHECK_EXCLS cfg \<and> EXCL_FORCES cfg \<and> cj_c e = ci_sh e \<and> j \<le> i then True
      else if rcut2 e \<le> pair_rsq e i j then True
      else if EXCL_FORCES cfg \<and> pair_rsq e i j < 1 / 10 ^ 12 then True
      else False)"

text \<open>Lines 132 and 134.\<close>

definition pair_rinv :: "kernel_env \<Rightarrow> int \<Rightarrow> int \<Rightarrow> real" where
  "pair_rinv e i j = gmx_invsqrt (pair_rsq e i j)"

definition pair_rinvsq :: "kernel_env \<Rightarrow> int \<Rightarrow> int \<Rightarrow> real" where
  "pair_rinvsq e i j = pair_rinv e i j * pair_rinv e i j"

text \<open>
  The guard of the Lennard-Jones block (lines 136--139) and of the force combination
  (lines 187--190): always taken without \<open>HALF_LJ\<close>, and only for the first half of the
  i-cluster with it.
\<close>

definition lj_block :: "config \<Rightarrow> kernel_env \<Rightarrow> int \<Rightarrow> bool" where
  "lj_block cfg e i = (if HALF_LJ cfg then i < UNROLLI e div 2 else True)"

text \<open>
  Lines 140--143.  \<open>Vvdw6\<close> and \<open>Vvdw12\<close> are initialised to 0 at line 72 and keep that
  value when the block is not entered; \<open>rinvsix\<close> is assigned in the block only.
\<close>

definition pair_rinvsix :: "config \<Rightarrow> kernel_env \<Rightarrow> int \<Rightarrow> int \<Rightarrow> real" where
  "pair_rinvsix cfg e i j =
     of_int (pair_interact cfg e i j) * pair_rinvsq e i j * pair_rinvsq e i j
       * pair_rinvsq e i j"

definition pair_Vvdw6 :: "config \<Rightarrow> kernel_env \<Rightarrow> int \<Rightarrow> int \<Rightarrow> real" where
  "pair_Vvdw6 cfg e i j =
     (if lj_block cfg e i
      then nbfp e (type_i_off e i + nbat_type e (pair_aj e j) * 2) * pair_rinvsix cfg e i j
      else 0)"

definition pair_Vvdw12 :: "config \<Rightarrow> kernel_env \<Rightarrow> int \<Rightarrow> int \<Rightarrow> real" where
  "pair_Vvdw12 cfg e i j =
     (if lj_block cfg e i
      then nbfp e (type_i_off e i + nbat_type e (pair_aj e j) * 2 + 1)
             * pair_rinvsix cfg e i j * pair_rinvsix cfg e i j
      else 0)"

text \<open>Line 155.\<close>

definition pair_qq :: "kernel_env \<Rightarrow> int \<Rightarrow> int \<Rightarrow> real" where
  "pair_qq e i j = qi e i * nbat_q e (pair_aj e j)"

text \<open>Lines 163--166: the table lookup of the Ewald correction.\<close>

definition pair_rs :: "kernel_env \<Rightarrow> int \<Rightarrow> int \<Rightarrow> real" where
  "pair_rs e i j = pair_rsq e i j * pair_rinv e i j * tabq_scale e"

definition pair_ri :: "kernel_env \<Rightarrow> int \<Rightarrow> int \<Rightarrow> int" where
  "pair_ri e i j = c_trunc (pair_rs e i j)"

definition pair_frac :: "kernel_env \<Rightarrow> int \<Rightarrow> int \<Rightarrow> real" where
  "pair_frac e i j = pair_rs e i j - of_int (pair_ri e i j)"

definition pair_fexcl :: "kernel_env \<Rightarrow> int \<Rightarrow> int \<Rightarrow> real" where
  "pair_fexcl e i j =
     tab_coul_FDV0 e (pair_ri e i j * 4)
       + pair_frac e i j * tab_coul_FDV0 e (pair_ri e i j * 4 + 1)"

text \<open>
  The Coulomb force scalar: line 158 for the reaction field, lines 167 and 173 for the
  table.
\<close>

definition pair_fcoul :: "config \<Rightarrow> kernel_env \<Rightarrow> int \<Rightarrow> int \<Rightarrow> real" where
  "pair_fcoul cfg e i j =
     (if CALC_COUL_RF cfg
      then pair_qq e i j
             * (of_int (pair_interact cfg e i j) * pair_rinv e i j * pair_rinvsq e i j
                 - k_rf2 e)
      else (of_int (pair_interact cfg e i j) * pair_rinvsq e i j - pair_fexcl e i j)
             * (pair_qq e i j * pair_rinv e i j))"

text \<open>The Coulomb energy: line 160 for the reaction field, lines 169--171 for the table.\<close>

definition pair_vcoul :: "config \<Rightarrow> kernel_env \<Rightarrow> int \<Rightarrow> int \<Rightarrow> real" where
  "pair_vcoul cfg e i j =
     (if CALC_COUL_RF cfg
      then pair_qq e i j
             * (of_int (pair_interact cfg e i j) * pair_rinv e i j
                 + k_rf e * pair_rsq e i j - c_rf e)
      else pair_qq e i j
             * (of_int (pair_interact cfg e i j) * pair_rinv e i j
                 - (tab_coul_FDV0 e (pair_ri e i j * 4 + 2)
                     - halfsp e * pair_frac e i j
                         * (tab_coul_FDV0 e (pair_ri e i j * 4) + pair_fexcl e i j))))"

text \<open>
  Lines 186--207: one component of the force, for the displacement component \<open>d\<close>
  (\<open>dx\<close>, \<open>dy\<close> or \<open>dz\<close>).
\<close>

definition pair_fcomp :: "config \<Rightarrow> kernel_env \<Rightarrow> int \<Rightarrow> int \<Rightarrow> real \<Rightarrow> real" where
  "pair_fcomp cfg e i j d =
     (if CALC_COULOMB cfg
      then (if lj_block cfg e i
            then ((pair_Vvdw12 cfg e i j - pair_Vvdw6 cfg e i j) * pair_rinvsq e i j
                    + pair_fcoul cfg e i j) * d
            else pair_fcoul cfg e i j * d)
      else (pair_Vvdw12 cfg e i j - pair_Vvdw6 cfg e i j) * pair_rinvsq e i j * d)"

definition pair_fx :: "config \<Rightarrow> kernel_env \<Rightarrow> int \<Rightarrow> int \<Rightarrow> real" where
  "pair_fx cfg e i j = pair_fcomp cfg e i j (pair_dx e i j)"

definition pair_fy :: "config \<Rightarrow> kernel_env \<Rightarrow> int \<Rightarrow> int \<Rightarrow> real" where
  "pair_fy cfg e i j = pair_fcomp cfg e i j (pair_dy e i j)"

definition pair_fz :: "config \<Rightarrow> kernel_env \<Rightarrow> int \<Rightarrow> int \<Rightarrow> real" where
  "pair_fz cfg e i j = pair_fcomp cfg e i j (pair_dz e i j)"

text \<open>
  The magnitude of the force vector \<open>(fx, fy, fz)\<close>.  The source never computes it; the
  specification speaks of it.
\<close>

definition pair_fmag :: "config \<Rightarrow> kernel_env \<Rightarrow> int \<Rightarrow> int \<Rightarrow> real" where
  "pair_fmag cfg e i j =
     sqrt ((pair_fx cfg e i j)\<^sup>2 + (pair_fy cfg e i j)\<^sup>2 + (pair_fz cfg e i j)\<^sup>2)"

subsection \<open>The effects of one (i, j) iteration\<close>

text \<open>Lines 128--130.\<close>

definition count_pair :: "config \<Rightarrow> kernel_acc \<Rightarrow> kernel_acc" where
  "count_pair cfg s = (if COUNT_PAIRS cfg then s\<lparr>npair := npair s + 1\<rparr> else s)"

text \<open>The slot of the energy-group arrays used at lines 146 and 179.\<close>

definition egp_index :: "kernel_env \<Rightarrow> int \<Rightarrow> int \<Rightarrow> int" where
  "egp_index e i j =
     egp_sh_i e i + (drop_bit (nat (8 * j)) (nbat_energrp e (cj_c e)) AND 255)"

text \<open>Lines 144--151, inside the Lennard-Jones block.\<close>

definition add_Vvdw :: "config \<Rightarrow> kernel_env \<Rightarrow> int \<Rightarrow> int \<Rightarrow> kernel_acc \<Rightarrow> kernel_acc" where
  "add_Vvdw cfg e i j s =
     (if lj_block cfg e i \<and> CALC_ENERGIES cfg
      then (if ENERGY_GROUPS cfg
            then s\<lparr>Vvdw := (Vvdw s)(egp_index e i j :=
                     Vvdw s (egp_index e i j)
                       + (pair_Vvdw12 cfg e i j / 12 - pair_Vvdw6 cfg e i j / 6))\<rparr>
            else s\<lparr>Vvdw_ci := Vvdw_ci s
                     + (pair_Vvdw12 cfg e i j / 12 - pair_Vvdw6 cfg e i j / 6)\<rparr>)
      else s)"

text \<open>Lines 176--183, inside \<open>CALC_COULOMB\<close>.\<close>

definition add_Vc :: "config \<Rightarrow> kernel_env \<Rightarrow> int \<Rightarrow> int \<Rightarrow> kernel_acc \<Rightarrow> kernel_acc" where
  "add_Vc cfg e i j s =
     (if CALC_COULOMB cfg \<and> CALC_ENERGIES cfg
      then (if ENERGY_GROUPS cfg
            then s\<lparr>Vc := (Vc s)(egp_index e i j :=
                     Vc s (egp_index e i j) + pair_vcoul cfg e i j)\<rparr>
            else s\<lparr>Vc_ci := Vc_ci s + pair_vcoul cfg e i j\<rparr>)
      else s)"

text \<open>Lines 209--216.\<close>

definition add_forces :: "config \<Rightarrow> kernel_env \<Rightarrow> int \<Rightarrow> int \<Rightarrow> kernel_acc \<Rightarrow> kernel_acc" where
  "add_forces cfg e i j s =
     s\<lparr>fi := (fi s)
          (i * 3 + 0 := fi s (i * 3 + 0) + pair_fx cfg e i j,
           i * 3 + 1 := fi s (i * 3 + 1) + pair_fy cfg e i j,
           i * 3 + 2 := fi s (i * 3 + 2) + pair_fz cfg e i j),
       out_f := (out_f s)
          (pair_aj e j * 3 + 0 := out_f s (pair_aj e j * 3 + 0) - pair_fx cfg e i j,
           pair_aj e j * 3 + 1 := out_f s (pair_aj e j * 3 + 1) - pair_fy cfg e i j,
           pair_aj e j * 3 + 2 := out_f s (pair_aj e j * 3 + 2) - pair_fz cfg e i j)\<rparr>"

text \<open>The body of the j-loop (lines 67--217).\<close>

definition pair_body :: "config \<Rightarrow> kernel_env \<Rightarrow> int \<Rightarrow> int \<Rightarrow> kernel_acc \<Rightarrow> kernel_acc" where
  "pair_body cfg e i j s =
     (if pair_continue cfg e i j then s
      else add_forces cfg e i j (add_Vc cfg e i j (add_Vvdw cfg e i j (count_pair cfg s))))"

text \<open>The loop over j (line 66) and the loop over i (line 56).\<close>

definition j_loop :: "config \<Rightarrow> kernel_env \<Rightarrow> int \<Rightarrow> kernel_acc \<Rightarrow> kernel_acc" where
  "j_loop cfg e i s = fold (pair_body cfg e i) [0 .. UNROLLJ e - 1] s"

definition inner_loop :: "config \<Rightarrow> kernel_env \<Rightarrow> kernel_acc \<Rightarrow> kernel_acc" where
  "inner_loop cfg e s = fold (j_loop cfg e) [0 .. UNROLLI e - 1] s"

section \<open>The comparison method of the selection engine\<close>

text \<open>
  \<^verbatim>\<open>src/gromacs/selection/sm_compare.cpp\<close>.  An operand array (a pointer and the number of
  values that goes with it) is a list, \<^verbatim>\<open>NULL\<close> the empty list; C \<^verbatim>\<open>int\<close> values are
  integers, and the one place where the range of \<^verbatim>\<open>int\<close> matters, the cast of a rounded
  real, is written out in \<open>c_int_cast\<close>.
\<close>

datatype e_comparison_t =
  CMP_INVALID | CMP_LESS | CMP_LEQ | CMP_GTR | CMP_GEQ | CMP_EQUAL | CMP_NEQ

definition CMP_SINGLEVAL :: int where "CMP_SINGLEVAL = 1"

definition CMP_DYNAMICVAL :: int where "CMP_DYNAMICVAL = 2"

definition CMP_REALVAL :: int where "CMP_REALVAL = 4"

definition CMP_ALLOCINT :: int where "CMP_ALLOCINT = 16"

definition CMP_ALLOCREAL :: int where "CMP_ALLOCREAL = 32"

text \<open>\<open>ivals\<close> and \<open>rvals\<close> are the members \<^verbatim>\<open>i\<close> and \<^verbatim>\<open>r\<close> of the source.\<close>

record t_compare_value =
  flags :: int
  ivals :: "int list"
  rvals :: "real list"

record t_methoddata_compare =
  cmpop :: string
  cmpt :: e_comparison_t
  left :: t_compare_value
  right :: t_compare_value

text \<open>
  What \<open>init_comparison_value\<close> reads of a \<^verbatim>\<open>gmx_ana_selparam_t\<close>, whose declaration is
  not part of the sources at hand: the three bits of \<^verbatim>\<open>flags\<close> that it tests, each as a
  boolean, the count \<^verbatim>\<open>val.nr\<close> and the arrays behind \<^verbatim>\<open>val.u.i\<close> and \<^verbatim>\<open>val.u.r\<close>.
\<close>

record gmx_ana_selparam =
  SPAR_SET :: bool
  SPAR_DYNAMIC :: bool
  SPAR_ATOMVAL :: bool
  val_nr :: int
  val_u_i :: "int list"
  val_u_r :: "real list"

text \<open>
  The two exceptions that the file throws, with their messages.  \<open>UndefinedCast\<close> is not
  an exception: it stands for the undefined behaviour of C when a real outside the range
  of \<^verbatim>\<open>int\<close> is cast to \<^verbatim>\<open>int\<close>.
\<close>

datatype gmx_exception =
  NotImplementedError string | InternalError string | UndefinedCast

text \<open>The character \<^verbatim>\<open>str[k]\<close> of a NUL-terminated string.\<close>

definition c_char :: "string \<Rightarrow> nat \<Rightarrow> char" where
  "c_char str k = (if k < length str then str ! k else CHR 0x00)"

definition comparison_type :: "string \<Rightarrow> e_comparison_t" where
  "comparison_type str =
     (if c_char str 0 = CHR ''<''
        then (if c_char str 1 = CHR ''='' then CMP_LEQ else CMP_LESS)
      else if c_char str 0 = CHR ''>''
        then (if c_char str 1 = CHR ''='' then CMP_GEQ else CMP_GTR)
      else if c_char str 0 = CHR ''=''
        then (if c_char str 1 = CHR ''='' then CMP_EQUAL else CMP_INVALID)
      else if c_char str 0 = CHR ''!''
        then (if c_char str 1 = CHR ''='' then CMP_NEQ else CMP_INVALID)
      else CMP_INVALID)"

fun reverse_comparison_type :: "e_comparison_t \<Rightarrow> e_comparison_t" where
  "reverse_comparison_type CMP_LESS = CMP_GTR"
| "reverse_comparison_type CMP_LEQ = CMP_GEQ"
| "reverse_comparison_type CMP_GTR = CMP_LESS"
| "reverse_comparison_type CMP_GEQ = CMP_LEQ"
| "reverse_comparison_type t = t"

text \<open>
  \<open>init_comparison_value val (param[0]) (param[1])\<close> returns the count and the
  initialised operand.
\<close>

definition init_comparison_value ::
  "t_compare_value \<Rightarrow> gmx_ana_selparam \<Rightarrow> gmx_ana_selparam \<Rightarrow> int \<times> t_compare_value" where
  "init_comparison_value val p0 p1 =
     (if SPAR_SET p0
      then (val_nr p0,
            val\<lparr>flags := 0 OR (if SPAR_DYNAMIC p0 then CMP_DYNAMICVAL else 0)
                           OR (if \<not> SPAR_ATOMVAL p0 then CMP_SINGLEVAL else 0),
                ivals := val_u_i p0\<rparr>)
      else if SPAR_SET p1
      then (val_nr p1,
            val\<lparr>flags := 0 OR (if SPAR_DYNAMIC p1 then CMP_DYNAMICVAL else 0)
                           OR (if \<not> SPAR_ATOMVAL p1 then CMP_SINGLEVAL else 0)
                           OR CMP_REALVAL,
                rvals := val_u_r p1\<rparr>)
      else (0, val\<lparr>flags := 0, ivals := [], rvals := []\<rparr>))"

definition convert_int_real :: "int \<Rightarrow> t_compare_value \<Rightarrow> t_compare_value" where
  "convert_int_real n val =
     val\<lparr>rvals := map (\<lambda>k. of_int (ivals val ! k)) [0 ..< nat n],
         flags := flags val OR (CMP_REALVAL OR CMP_ALLOCREAL)\<rparr>"

text \<open>
  The cast \<^verbatim>\<open>(int)v\<close>: the truncated value when a 32-bit \<^verbatim>\<open>int\<close> can hold it, undefined
  otherwise.
\<close>

definition c_int_cast :: "real \<Rightarrow> gmx_exception + int" where
  "c_int_cast v =
     (if - (2 ^ 31) \<le> c_trunc v \<and> c_trunc v < 2 ^ 31 then Inr (c_trunc v)
      else Inl UndefinedCast)"

text \<open>The \<^verbatim>\<open>switch\<close> in the loop of \<open>convert_real_int\<close> (lines 360--381), for one value.\<close>

definition round_value :: "e_comparison_t \<Rightarrow> real \<Rightarrow> gmx_exception + int" where
  "round_value t v =
     (case t of
        CMP_LESS \<Rightarrow> c_int_cast (of_int \<lceil>v\<rceil>)
      | CMP_GEQ \<Rightarrow> c_int_cast (of_int \<lceil>v\<rceil>)
      | CMP_GTR \<Rightarrow> c_int_cast (of_int \<lfloor>v\<rfloor>)
      | CMP_LEQ \<Rightarrow> c_int_cast (of_int \<lfloor>v\<rfloor>)
      | CMP_EQUAL \<Rightarrow> Inl (NotImplementedError
          ''Equality comparison between dynamic integer and static real expressions not implemented'')
      | CMP_NEQ \<Rightarrow> Inl (NotImplementedError
          ''Equality comparison between dynamic integer and static real expressions not implemented'')
      | CMP_INVALID \<Rightarrow> Inl (InternalError ''Invalid comparison type''))"

text \<open>
  The loop of \<open>convert_real_int\<close> over the indices \<open>0, ..., n - 1\<close>: the first exception
  ends it.
\<close>

fun convert_loop :: "e_comparison_t \<Rightarrow> real list \<Rightarrow> nat list \<Rightarrow> gmx_exception + int list" where
  "convert_loop t rv [] = Inr []"
| "convert_loop t rv (k # ks) =
     (case round_value t (rv ! k) of
        Inl err \<Rightarrow> Inl err
      | Inr v \<Rightarrow> (case convert_loop t rv ks of
                   Inl err \<Rightarrow> Inl err
                 | Inr vs \<Rightarrow> Inr (v # vs)))"

definition convert_real_int ::
  "int \<Rightarrow> t_compare_value \<Rightarrow> e_comparison_t \<Rightarrow> bool \<Rightarrow> gmx_exception + t_compare_value" where
  "convert_real_int n val t bRight =
     (case convert_loop (if \<not> bRight then reverse_comparison_type t else t) (rvals val)
             [0 ..< nat n] of
        Inl err \<Rightarrow> Inl err
      | Inr iv \<Rightarrow> Inr (val\<lparr>ivals := iv,
                            flags := (flags val AND NOT CMP_REALVAL) OR CMP_ALLOCINT\<rparr>))"

text \<open>
  \<open>init_compare\<close>: \<open>param\<close> is the parameter array (\<open>int1\<close>, \<open>real1\<close>, \<open>op\<close>, \<open>int2\<close>,
  \<open>real2\<close>), \<open>d\<close> the method data with \<open>cmpop\<close> already stored by the parser.  A thrown
  exception is the result \<open>Inl\<close>.
\<close>

definition init_compare ::
  "(nat \<Rightarrow> gmx_ana_selparam) \<Rightarrow> t_methoddata_compare
     \<Rightarrow> gmx_exception + t_methoddata_compare" where
  "init_compare param d =
     (let (n1, l) = init_comparison_value (left d) (param 0) (param 1);
          (n2, r) = init_comparison_value (right d) (param 3) (param 4)
      in if n1 = 0 \<or> n2 = 0
         then Inl (InternalError ''One of the values for comparison missing'')
         else let t = comparison_type (cmpop d);
                  d1 = d\<lparr>left := l, right := r, cmpt := t\<rparr>
              in if t = CMP_INVALID then Inl (InternalError ''Invalid comparison type'')
                 else if flags l AND CMP_REALVAL \<noteq> 0 \<and> \<not> flags r AND CMP_REALVAL \<noteq> 0
                 then (if flags l AND flags r AND CMP_DYNAMICVAL \<noteq> 0 then Inr d1
                       else if \<not> flags r AND CMP_DYNAMICVAL \<noteq> 0
                       then Inr (d1\<lparr>right := convert_int_real n2 r\<rparr>)
                       else (case convert_real_int n1 l t False of
                               Inl err \<Rightarrow> Inl err
                             | Inr l' \<Rightarrow> Inr (d1\<lparr>left := l'\<rparr>)))
                 else if \<not> flags l AND CMP_REALVAL \<noteq> 0 \<and> flags r AND CMP_REALVAL \<noteq> 0
                 then (if flags l AND flags r AND CMP_DYNAMICVAL \<noteq> 0
                       then Inr (d1\<lparr>left := l\<lparr>rvals := rvals r, ivals := [], flags := flags r\<rparr>,
                                    right := r\<lparr>rvals := [], ivals := ivals l, flags := flags l\<rparr>,
                                    cmpt := reverse_comparison_type t\<rparr>)
                       else if \<not> flags l AND CMP_DYNAMICVAL \<noteq> 0
                       then Inr (d1\<lparr>left := convert_int_real n1 l\<rparr>)
                       else (case convert_real_int n2 r t True of
                               Inl err \<Rightarrow> Inl err
                             | Inr r' \<Rightarrow> Inr (d1\<lparr>right := r'\<rparr>)))
                 else Inr d1)"

text \<open>The \<^verbatim>\<open>switch\<close> of \<open>evaluate_compare_int\<close> (lines 515--524).\<close>

fun accept_int :: "e_comparison_t \<Rightarrow> int \<Rightarrow> int \<Rightarrow> bool" where
  "accept_int CMP_INVALID a b = False"
| "accept_int CMP_LESS a b = (a < b)"
| "accept_int CMP_LEQ a b = (a \<le> b)"
| "accept_int CMP_GTR a b = (a > b)"
| "accept_int CMP_GEQ a b = (a \<ge> b)"
| "accept_int CMP_EQUAL a b = (a = b)"
| "accept_int CMP_NEQ a b = (a \<noteq> b)"

text \<open>
  The \<^verbatim>\<open>switch\<close> of \<open>evaluate_compare_real\<close> (lines 563--572).  \<open>within_tol a b\<close> stands
  for \<^verbatim>\<open>gmx_within_tol(a, b, GMX_REAL_EPS)\<close>, which a legacy header defines.
\<close>

fun accept_real :: "(real \<Rightarrow> real \<Rightarrow> bool) \<Rightarrow> e_comparison_t \<Rightarrow> real \<Rightarrow> real \<Rightarrow> bool" where
  "accept_real within_tol CMP_INVALID a b = False"
| "accept_real within_tol CMP_LESS a b = (a < b)"
| "accept_real within_tol CMP_LEQ a b = (a \<le> b)"
| "accept_real within_tol CMP_GTR a b = (a > b)"
| "accept_real within_tol CMP_GEQ a b = (a \<ge> b)"
| "accept_real within_tol CMP_EQUAL a b = within_tol a b"
| "accept_real within_tol CMP_NEQ a b = (\<not> within_tol a b)"

section \<open>Concrete inputs\<close>

text \<open>
  Two kernel variants: Lennard-Jones only with exclusions and energies, and reaction-field
  electrostatics with exclusions and without energies.
\<close>

definition ex_cfg_lj :: config where
  "ex_cfg_lj = \<lparr>CHECK_EXCLS = True, CALC_COULOMB = False, CALC_COUL_RF = False,
     CALC_ENERGIES = True, ENERGY_GROUPS = False, HALF_LJ = False, COUNT_PAIRS = False\<rparr>"

definition ex_cfg_rf :: config where
  "ex_cfg_rf = \<lparr>CHECK_EXCLS = True, CALC_COULOMB = True, CALC_COUL_RF = True,
     CALC_ENERGIES = False, ENERGY_GROUPS = False, HALF_LJ = False, COUNT_PAIRS = False\<rparr>"

text \<open>
  Clusters of four particles; particle \<open>a\<close> sits at \<open>(a, 0, 0)\<close>.  The i-cluster is cluster 0
  in the unshifted image, the j-cluster is cluster 1, and no pair is excluded.  The
  particles of cluster 0 carry the charge 1, all others the charge -1; the Lennard-Jones
  parameters are zero.
\<close>

definition ex_env :: kernel_env where
  "ex_env = \<lparr>UNROLLI = 4, UNROLLJ = 4, ci = 0, ci_sh = 0, cj_c = 1, cj_excl = 0xFFFF,
     xi = (\<lambda>k. if k mod 3 = 0 then of_int (k div 3) else 0),
     qi = (\<lambda>k. 1),
     egp_sh_i = (\<lambda>k. 0),
     nbat_x = (\<lambda>k. if k mod 3 = 0 then of_int (k div 3) else 0),
     nbat_q = (\<lambda>k. if k < 4 then 1 else - 1),
     nbat_type = (\<lambda>k. 0),
     nbat_energrp = (\<lambda>k. 0),
     nbfp = (\<lambda>k. 0),
     ntype2 = 2, rcut2 = 100, k_rf = 1 / 2, k_rf2 = 1, c_rf = 1,
     tabq_scale = 1, tab_coul_FDV0 = (\<lambda>k. 0), halfsp = 1 / 2\<rparr>"

definition ex_acc :: kernel_acc where
  "ex_acc = \<lparr>fi = (\<lambda>k. 0), out_f = (\<lambda>k. 0), Vvdw_ci = 0, Vc_ci = 0,
     Vvdw = (\<lambda>k. 0), Vc = (\<lambda>k. 0), npair = 0\<rparr>"

text \<open>
  Parameters of the comparison method: an unset parameter, a dynamic per-atom integer
  parameter with three values, and a static real parameter with the single value 5/2.
\<close>

definition ex_unset :: gmx_ana_selparam where
  "ex_unset = \<lparr>SPAR_SET = False, SPAR_DYNAMIC = False, SPAR_ATOMVAL = False, val_nr = - 1,
     val_u_i = [], val_u_r = []\<rparr>"

definition ex_dyn_int :: gmx_ana_selparam where
  "ex_dyn_int = \<lparr>SPAR_SET = True, SPAR_DYNAMIC = True, SPAR_ATOMVAL = True, val_nr = 3,
     val_u_i = [1, 2, 3], val_u_r = []\<rparr>"

definition ex_static_real :: gmx_ana_selparam where
  "ex_static_real = \<lparr>SPAR_SET = True, SPAR_DYNAMIC = False, SPAR_ATOMVAL = False, val_nr = 1,
     val_u_i = [], val_u_r = [5 / 2]\<rparr>"

text \<open>The parameter arrays for \<open>int1 op real2\<close> and for \<open>real1 op int2\<close>.\<close>

definition ex_param_int_real :: "nat \<Rightarrow> gmx_ana_selparam" where
  "ex_param_int_real k = (if k = 0 then ex_dyn_int else if k = 4 then ex_static_real else ex_unset)"

definition ex_param_real_int :: "nat \<Rightarrow> gmx_ana_selparam" where
  "ex_param_real_int k = (if k = 1 then ex_static_real else if k = 3 then ex_dyn_int else ex_unset)"

text \<open>
  A static real parameter whose single value, 2147483648, is one more than the largest
  32-bit \<^verbatim>\<open>int\<close>, and the parameter array for \<open>int1 op real2\<close> with it.
\<close>

definition ex_big_real :: gmx_ana_selparam where
  "ex_big_real = \<lparr>SPAR_SET = True, SPAR_DYNAMIC = False, SPAR_ATOMVAL = False, val_nr = 1,
     val_u_i = [], val_u_r = [2147483648]\<rparr>"

definition ex_param_int_big :: "nat \<Rightarrow> gmx_ana_selparam" where
  "ex_param_int_big k = (if k = 0 then ex_dyn_int else if k = 4 then ex_big_real else ex_unset)"

text \<open>The method data as \<open>init_data_compare\<close> and the parser leave it, for an operator.\<close>

definition ex_data :: "string \<Rightarrow> t_methoddata_compare" where
  "ex_data str = \<lparr>cmpop = str, cmpt = CMP_INVALID,
     left = \<lparr>flags = 0, ivals = [], rvals = []\<rparr>,
     right = \<lparr>flags = 0, ivals = [], rvals = []\<rparr>\<rparr>"

section \<open>Properties of the kernel\<close>

subsection \<open>Auxiliary facts\<close>

lemma pair_body_continue: "pair_continue cfg e i j \<Longrightarrow> pair_body cfg e i j s = s"
  by (simp add: pair_body_def)

lemma pair_body_evaluated:
  "\<not> pair_continue cfg e i j \<Longrightarrow>
     pair_body cfg e i j s
       = add_forces cfg e i j (add_Vc cfg e i j (add_Vvdw cfg e i j (count_pair cfg s)))"
  by (simp add: pair_body_def)

lemma pair_interact_01: "pair_interact cfg e i j = 0 \<or> pair_interact cfg e i j = 1"
proof (cases "CHECK_EXCLS cfg")
  case True
  have "drop_bit (nat (i * UNROLLI e + j)) (cj_excl e) AND 1 = 0
      \<or> drop_bit (nat (i * UNROLLI e + j)) (cj_excl e) AND 1 = 1"
    by (simp add: and_one_eq mod_2_eq_odd)
  then show ?thesis using True by (auto simp: pair_interact_def)
next
  case False
  then show ?thesis by (simp add: pair_interact_def)
qed

lemma fi_pair_body:
  "\<not> pair_continue cfg e i j \<Longrightarrow>
     fi (pair_body cfg e i j s) = (fi s)
          (i * 3 + 0 := fi s (i * 3 + 0) + pair_fx cfg e i j,
           i * 3 + 1 := fi s (i * 3 + 1) + pair_fy cfg e i j,
           i * 3 + 2 := fi s (i * 3 + 2) + pair_fz cfg e i j)"
  by (simp add: pair_body_def add_forces_def add_Vc_def add_Vvdw_def count_pair_def)

lemma out_f_pair_body:
  "\<not> pair_continue cfg e i j \<Longrightarrow>
     out_f (pair_body cfg e i j s) = (out_f s)
          (pair_aj e j * 3 + 0 := out_f s (pair_aj e j * 3 + 0) - pair_fx cfg e i j,
           pair_aj e j * 3 + 1 := out_f s (pair_aj e j * 3 + 1) - pair_fy cfg e i j,
           pair_aj e j * 3 + 2 := out_f s (pair_aj e j * 3 + 2) - pair_fz cfg e i j)"
  by (simp add: pair_body_def add_forces_def add_Vc_def add_Vvdw_def count_pair_def)

lemma vdw_zero_if_no_interact:
  "pair_interact cfg e i j = 0 \<Longrightarrow> pair_Vvdw6 cfg e i j = 0 \<and> pair_Vvdw12 cfg e i j = 0"
  by (simp add: pair_Vvdw6_def pair_Vvdw12_def pair_rinvsix_def)

lemma vdw_zero_if_no_params:
  "nbfp e (type_i_off e i + nbat_type e (pair_aj e j) * 2) = 0 \<Longrightarrow>
   nbfp e (type_i_off e i + nbat_type e (pair_aj e j) * 2 + 1) = 0 \<Longrightarrow>
     pair_Vvdw6 cfg e i j = 0 \<and> pair_Vvdw12 cfg e i j = 0"
  by (simp add: pair_Vvdw6_def pair_Vvdw12_def)

lemma fmag_scalar:
  assumes "pair_fx cfg e i j = c * pair_dx e i j"
      and "pair_fy cfg e i j = c * pair_dy e i j"
      and "pair_fz cfg e i j = c * pair_dz e i j"
  shows "pair_fmag cfg e i j = \<bar>c\<bar> * sqrt (pair_rsq e i j)"
proof -
  have "(pair_fx cfg e i j)\<^sup>2 + (pair_fy cfg e i j)\<^sup>2 + (pair_fz cfg e i j)\<^sup>2
      = c\<^sup>2 * pair_rsq e i j"
    by (simp add: assms pair_rsq_def power2_eq_square algebra_simps)
  then show ?thesis
    by (simp add: pair_fmag_def real_sqrt_mult)
qed

lemma rinv_bound:
  assumes "1 / 10 ^ 12 \<le> (r::real)"
  shows "0 < gmx_invsqrt r \<and> gmx_invsqrt r \<le> 10 ^ 6"
proof -
  have "(1 / 10 ^ 6 :: real)\<^sup>2 \<le> r" using assms by (simp add: power_divide)
  then have l: "1 / 10 ^ 6 \<le> sqrt r" by (rule real_le_rsqrt)
  have "(0::real) < 1 / 10 ^ 6" by simp
  with l have p: "0 < sqrt r" by linarith
  from l have "1 \<le> 10 ^ 6 * sqrt r" by (simp add: field_simps)
  with p show ?thesis by (simp add: gmx_invsqrt_def field_simps)
qed

text \<open>
  A cluster pair all of whose pairs are skipped leaves every accumulator as it was.
\<close>

lemma fold_unchanged: "(\<And>x. x \<in> set xs \<Longrightarrow> g x s = s) \<Longrightarrow> fold g xs s = s"
  by (induction xs) simp_all

lemma inner_loop_all_continue:
  assumes "\<And>i j. 0 \<le> i \<Longrightarrow> i < UNROLLI e \<Longrightarrow> 0 \<le> j \<Longrightarrow> j < UNROLLJ e \<Longrightarrow> pair_continue cfg e i j"
  shows "inner_loop cfg e s = s"
proof -
  have "j_loop cfg e i s = s" if "0 \<le> i" "i < UNROLLI e" for i
    unfolding j_loop_def using that assms by (intro fold_unchanged pair_body_continue) simp
  then show ?thesis
    unfolding inner_loop_def by (intro fold_unchanged) simp
qed

subsection \<open>The example pairs\<close>

lemma sqrt4: "sqrt 4 = 2"
  using real_sqrt_abs [of 2] by simp

lemma ex_aj: "pair_aj (ex_env\<lparr>cj_excl := m\<rparr>) 0 = 4"
  by (simp add: pair_aj_def ex_env_def)

lemma ex_rsq: "pair_rsq (ex_env\<lparr>cj_excl := m\<rparr>) 2 0 = 4"
  by (simp add: pair_rsq_def pair_dx_def pair_dy_def pair_dz_def pair_aj_def ex_env_def)

lemma ex_rinv: "pair_rinv (ex_env\<lparr>cj_excl := m\<rparr>) 2 0 = 1 / 2"
  by (simp add: pair_rinv_def gmx_invsqrt_def ex_rsq sqrt4)

lemma ex_interact_full: "pair_interact ex_cfg_rf (ex_env\<lparr>cj_excl := 0xFFFF\<rparr>) 2 0 = 1"
  by (simp add: pair_interact_def ex_cfg_rf_def ex_env_def)

lemma ex_interact_excl: "pair_interact ex_cfg_rf (ex_env\<lparr>cj_excl := 0xFEFF\<rparr>) 2 0 = 0"
  by (simp add: pair_interact_def ex_cfg_rf_def ex_env_def)

lemma ex_env_triv: "ex_env\<lparr>cj_excl := 0xFFFF\<rparr> = ex_env"
  by (simp add: ex_env_def)

lemma ex_not_continue: "\<not> pair_continue ex_cfg_rf (ex_env\<lparr>cj_excl := m\<rparr>) 2 0"
  by (simp add: pair_continue_def ex_rsq) (simp add: ex_cfg_rf_def ex_env_def EXCL_FORCES_def)

lemma ex_fcoul:
  "pair_fcoul ex_cfg_rf (ex_env\<lparr>cj_excl := m\<rparr>) 2 0
     = - (of_int (pair_interact ex_cfg_rf (ex_env\<lparr>cj_excl := m\<rparr>) 2 0) / 8 - 1)"
  by (simp add: pair_fcoul_def pair_rinvsq_def ex_rinv pair_qq_def ex_aj)
    (simp add: ex_cfg_rf_def ex_env_def)

lemma ex_fcomp:
  "pair_fcomp ex_cfg_rf (ex_env\<lparr>cj_excl := m\<rparr>) 2 0 d
     = pair_fcoul ex_cfg_rf (ex_env\<lparr>cj_excl := m\<rparr>) 2 0 * d"
  by (simp add: pair_fcomp_def pair_Vvdw6_def pair_Vvdw12_def)
    (simp add: ex_cfg_rf_def ex_env_def)

lemma ex_d:
  "pair_dx (ex_env\<lparr>cj_excl := m\<rparr>) 2 0 = - 2"
  "pair_dy (ex_env\<lparr>cj_excl := m\<rparr>) 2 0 = 0"
  "pair_dz (ex_env\<lparr>cj_excl := m\<rparr>) 2 0 = 0"
  by (simp_all add: pair_dx_def pair_dy_def pair_dz_def pair_aj_def ex_env_def)

lemma ex_f_excl:
  "pair_fx ex_cfg_rf (ex_env\<lparr>cj_excl := 0xFEFF\<rparr>) 2 0 = - 2"
  "pair_fy ex_cfg_rf (ex_env\<lparr>cj_excl := 0xFEFF\<rparr>) 2 0 = 0"
  "pair_fz ex_cfg_rf (ex_env\<lparr>cj_excl := 0xFEFF\<rparr>) 2 0 = 0"
  by (simp_all add: pair_fx_def pair_fy_def pair_fz_def ex_fcomp ex_fcoul ex_d ex_interact_excl)

lemma ex_f_full:
  "pair_fx ex_cfg_rf (ex_env\<lparr>cj_excl := 0xFFFF\<rparr>) 2 0 = - (7 / 4)"
  "pair_fy ex_cfg_rf (ex_env\<lparr>cj_excl := 0xFFFF\<rparr>) 2 0 = 0"
  "pair_fz ex_cfg_rf (ex_env\<lparr>cj_excl := 0xFFFF\<rparr>) 2 0 = 0"
  by (simp_all add: pair_fx_def pair_fy_def pair_fz_def ex_fcomp ex_fcoul ex_d ex_interact_full)

lemma ex_fmag_full: "pair_fmag ex_cfg_rf (ex_env\<lparr>cj_excl := 0xFFFF\<rparr>) 2 0 = 7 / 4"
  using real_sqrt_abs [of "7 / 4"] by (simp add: pair_fmag_def ex_f_full)

lemma ex_q: "qi ex_env 2 = 1" "nbat_q ex_env 4 = - 1" "k_rf2 ex_env = 1"
  by (simp_all add: ex_env_def)

lemma ex_formula:
  "pair_qq (ex_env\<lparr>cj_excl := m\<rparr>) 2 0
     * (pair_rinv (ex_env\<lparr>cj_excl := m\<rparr>) 2 0 * pair_rinvsq (ex_env\<lparr>cj_excl := m\<rparr>) 2 0
         - k_rf2 (ex_env\<lparr>cj_excl := m\<rparr>))
     * pair_rinv (ex_env\<lparr>cj_excl := m\<rparr>) 2 0 = 7 / 16"
  by (simp add: pair_rinvsq_def pair_qq_def ex_rinv ex_aj ex_q)

lemma ex_rsq_diag: "pair_rsq (ex_env\<lparr>cj_c := 0, nbfp := p\<rparr>) 1 0 = 1"
  by (simp add: pair_rsq_def pair_dx_def pair_dy_def pair_dz_def pair_aj_def ex_env_def)

subsection \<open>The claims\<close>

text \<open>
  C1 (cut-off exactness).  A pair whose squared distance is at least \<open>rcut2\<close> is skipped in
  every variant of the kernel: the iteration returns the accumulators unchanged, so the
  pair adds exactly nothing to either force buffer, to the van der Waals energy or to the
  Coulomb energy.
\<close>

theorem cutoff_exactness:
  "rcut2 e \<le> pair_rsq e i j \<Longrightarrow> pair_body cfg e i j s = s"
  by (simp add: pair_body_def pair_continue_def)

theorem cutoff_exactness_witness:
  "rcut2 (ex_env\<lparr>rcut2 := 4\<rparr>) \<le> pair_rsq (ex_env\<lparr>rcut2 := 4\<rparr>) 2 0
   \<and> pair_body ex_cfg_rf (ex_env\<lparr>rcut2 := 4\<rparr>) 2 0 ex_acc = ex_acc"
proof -
  have r: "pair_rsq (ex_env\<lparr>rcut2 := 4\<rparr>) 2 0 = 4"
    by (simp add: pair_rsq_def pair_dx_def pair_dy_def pair_dz_def pair_aj_def ex_env_def)
  have h: "rcut2 (ex_env\<lparr>rcut2 := 4\<rparr>) \<le> pair_rsq (ex_env\<lparr>rcut2 := 4\<rparr>) 2 0"
    by (simp add: r)
  from cutoff_exactness [OF h, of ex_cfg_rf ex_acc] h show ?thesis by simp
qed

text \<open>
  C2 (Newton's third law).  For every pair that the kernel evaluates, the change of the
  i-particle's slot in \<open>fi\<close> is the vector \<open>(fx, fy, fz)\<close> and the change of the j-particle's
  slot in the global buffer is its negation: the same three values are added to one and
  subtracted from the other.  Over the reals the two changes are exact opposites.
\<close>

theorem force_symmetry:
  assumes "\<not> pair_continue cfg e i j"
  shows "fi (pair_body cfg e i j s) (i * 3 + 0) - fi s (i * 3 + 0) = pair_fx cfg e i j
       \<and> fi (pair_body cfg e i j s) (i * 3 + 1) - fi s (i * 3 + 1) = pair_fy cfg e i j
       \<and> fi (pair_body cfg e i j s) (i * 3 + 2) - fi s (i * 3 + 2) = pair_fz cfg e i j
       \<and> out_f (pair_body cfg e i j s) (pair_aj e j * 3 + 0) - out_f s (pair_aj e j * 3 + 0)
           = - pair_fx cfg e i j
       \<and> out_f (pair_body cfg e i j s) (pair_aj e j * 3 + 1) - out_f s (pair_aj e j * 3 + 1)
           = - pair_fy cfg e i j
       \<and> out_f (pair_body cfg e i j s) (pair_aj e j * 3 + 2) - out_f s (pair_aj e j * 3 + 2)
           = - pair_fz cfg e i j"
  using assms by (simp add: fi_pair_body out_f_pair_body)

theorem force_symmetry_witness:
  "\<not> pair_continue ex_cfg_rf ex_env 2 0
   \<and> fi (pair_body ex_cfg_rf ex_env 2 0 ex_acc) 6 - fi ex_acc 6 = - (7 / 4)
   \<and> out_f (pair_body ex_cfg_rf ex_env 2 0 ex_acc) 12 - out_f ex_acc 12 = 7 / 4"
proof -
  have h: "\<not> pair_continue ex_cfg_rf ex_env 2 0"
    using ex_not_continue [of "0xFFFF"] by (simp add: ex_env_triv)
  from force_symmetry [OF h, of ex_acc] h
  show ?thesis
    using ex_f_full ex_aj [of "0xFFFF"] by (simp add: ex_env_triv)
qed

text \<open>
  C3 (diagonal suppression), as amended.  The test \<open>cj == ci_sh && j <= i\<close> is compiled only
  when exclusion forces are (\<open>CHECK_EXCLS\<close> and \<open>CALC_COULOMB\<close> both defined).  In those
  variants every pair of the block of a cluster against itself with \<open>j <= i\<close> is skipped.
\<close>

theorem diagonal_suppression:
  "EXCL_FORCES cfg \<Longrightarrow> cj_c e = ci_sh e \<Longrightarrow> j \<le> i \<Longrightarrow> pair_body cfg e i j s = s"
  by (simp add: pair_body_def pair_continue_def EXCL_FORCES_def)

theorem diagonal_suppression_witness:
  "EXCL_FORCES ex_cfg_rf \<and> cj_c (ex_env\<lparr>cj_c := 0\<rparr>) = ci_sh (ex_env\<lparr>cj_c := 0\<rparr>)
   \<and> (0::int) \<le> 1
   \<and> pair_body ex_cfg_rf (ex_env\<lparr>cj_c := 0\<rparr>) 1 0 ex_acc = ex_acc"
proof -
  have h1: "EXCL_FORCES ex_cfg_rf" by (simp add: EXCL_FORCES_def ex_cfg_rf_def)
  have h2: "cj_c (ex_env\<lparr>cj_c := 0\<rparr>) = ci_sh (ex_env\<lparr>cj_c := 0\<rparr>)" by (simp add: ex_env_def)
  have h3: "(0::int) \<le> 1" by simp
  from diagonal_suppression [OF h1 h2 h3, of ex_acc] h1 h2 show ?thesis by simp
qed

text \<open>
  The claim as it stands fails in the variants without exclusion forces.  With
  \<open>CHECK_EXCLS\<close> alone the sub-diagonal pair (1, 0) of cluster 0 against itself is
  evaluated when its bit of the exclusion mask is set: there the mask is all that removes
  the diagonal.
\<close>

theorem diagonal_suppression_counterexample:
  "cj_c (ex_env\<lparr>cj_c := 0, nbfp := (\<lambda>k. if k = 1 then 2 else 1)\<rparr>)
     = ci_sh (ex_env\<lparr>cj_c := 0, nbfp := (\<lambda>k. if k = 1 then 2 else 1)\<rparr>)
   \<and> (0::int) \<le> 1
   \<and> fi (pair_body ex_cfg_lj (ex_env\<lparr>cj_c := 0, nbfp := (\<lambda>k. if k = 1 then 2 else 1)\<rparr>)
         1 0 ex_acc) 3 = 1
   \<and> pair_body ex_cfg_lj (ex_env\<lparr>cj_c := 0, nbfp := (\<lambda>k. if k = 1 then 2 else 1)\<rparr>)
         1 0 ex_acc \<noteq> ex_acc"
proof -
  let ?e = "ex_env\<lparr>cj_c := 0, nbfp := (\<lambda>k. if k = 1 then 2 else 1)\<rparr>"
  have nc: "\<not> pair_continue ex_cfg_lj ?e 1 0"
    by (simp add: pair_continue_def ex_rsq_diag)
      (simp add: ex_cfg_lj_def ex_env_def EXCL_FORCES_def pair_interact_def)
  have rinv: "pair_rinv ?e 1 0 = 1"
    by (simp add: pair_rinv_def gmx_invsqrt_def ex_rsq_diag)
  have fx: "pair_fx ex_cfg_lj ?e 1 0 = 1"
    by (simp add: pair_fx_def pair_fcomp_def pair_Vvdw6_def pair_Vvdw12_def pair_rinvsix_def
        pair_rinvsq_def rinv lj_block_def pair_interact_def pair_dx_def pair_aj_def
        type_i_off_def pair_ai_def)
      (simp add: ex_cfg_lj_def ex_env_def)
  have v: "fi (pair_body ex_cfg_lj ?e 1 0 ex_acc) 3 = 1"
    using fx by (simp add: fi_pair_body [OF nc]) (simp add: ex_acc_def)
  have "fi ex_acc 3 = 0" by (simp add: ex_acc_def)
  with v have "pair_body ex_cfg_lj ?e 1 0 ex_acc \<noteq> ex_acc" by auto
  with v show ?thesis by (simp add: ex_env_def)
qed

text \<open>
  C4 (mode selection for excluded pairs), as amended.  The mode is chosen by the
  electrostatics macro, not by the energy macro.  With \<open>CHECK_EXCLS\<close> and without
  \<open>CALC_COULOMB\<close>, a pair whose mask bit is 0 is skipped before the distance is computed.
  With \<open>CHECK_EXCLS\<close> and \<open>CALC_COULOMB\<close>, a pair whose mask bit is 0 and which passes the
  diagonal test, the cut-off and the guard for tiny distances is evaluated with
  \<open>interact = 0\<close> in the formulas: its van der Waals terms vanish and, under the reaction
  field, the Coulomb force scalar and energy keep only their reaction-field parts.
\<close>

theorem excluded_pairs_mode:
  "(CHECK_EXCLS cfg \<and> \<not> CALC_COULOMB cfg \<and> pair_interact cfg e i j = 0 \<longrightarrow>
       pair_continue cfg e i j \<and> pair_body cfg e i j s = s)
   \<and> (CHECK_EXCLS cfg \<and> CALC_COULOMB cfg \<and> pair_interact cfg e i j = 0
        \<and> \<not> (cj_c e = ci_sh e \<and> j \<le> i)
        \<and> pair_rsq e i j < rcut2 e \<and> 1 / 10 ^ 12 \<le> pair_rsq e i j \<longrightarrow>
       \<not> pair_continue cfg e i j
     \<and> pair_body cfg e i j s
         = add_forces cfg e i j (add_Vc cfg e i j (add_Vvdw cfg e i j (count_pair cfg s)))
     \<and> pair_Vvdw6 cfg e i j = 0 \<and> pair_Vvdw12 cfg e i j = 0
     \<and> (CALC_COUL_RF cfg \<longrightarrow>
          pair_fcoul cfg e i j
            = pair_qq e i j * (0 * pair_rinv e i j * pair_rinvsq e i j - k_rf2 e)
        \<and> pair_vcoul cfg e i j
            = pair_qq e i j * (0 * pair_rinv e i j + k_rf e * pair_rsq e i j - c_rf e)))"
  by (auto simp: pair_continue_def pair_body_def EXCL_FORCES_def vdw_zero_if_no_interact
      pair_fcoul_def pair_vcoul_def)

theorem excluded_pairs_mode_witness:
  "(CHECK_EXCLS ex_cfg_lj \<and> \<not> CALC_COULOMB ex_cfg_lj
     \<and> pair_interact ex_cfg_lj (ex_env\<lparr>cj_excl := 0xFEFF\<rparr>) 2 0 = 0
     \<and> pair_body ex_cfg_lj (ex_env\<lparr>cj_excl := 0xFEFF\<rparr>) 2 0 ex_acc = ex_acc)
   \<and> (CHECK_EXCLS ex_cfg_rf \<and> CALC_COULOMB ex_cfg_rf \<and> CALC_COUL_RF ex_cfg_rf
     \<and> pair_interact ex_cfg_rf (ex_env\<lparr>cj_excl := 0xFEFF\<rparr>) 2 0 = 0
     \<and> \<not> pair_continue ex_cfg_rf (ex_env\<lparr>cj_excl := 0xFEFF\<rparr>) 2 0
     \<and> pair_Vvdw6 ex_cfg_rf (ex_env\<lparr>cj_excl := 0xFEFF\<rparr>) 2 0 = 0
     \<and> pair_Vvdw12 ex_cfg_rf (ex_env\<lparr>cj_excl := 0xFEFF\<rparr>) 2 0 = 0
     \<and> pair_fcoul ex_cfg_rf (ex_env\<lparr>cj_excl := 0xFEFF\<rparr>) 2 0 = 1)"
proof -
  let ?e = "ex_env\<lparr>cj_excl := 0xFEFF\<rparr>"
  have a: "CHECK_EXCLS ex_cfg_lj" "\<not> CALC_COULOMB ex_cfg_lj"
    "pair_interact ex_cfg_lj ?e 2 0 = 0"
    by (simp_all add: ex_cfg_lj_def pair_interact_def ex_env_def)
  have b: "CHECK_EXCLS ex_cfg_rf" "CALC_COULOMB ex_cfg_rf" "CALC_COUL_RF ex_cfg_rf"
    by (simp_all add: ex_cfg_rf_def)
  have c: "\<not> (cj_c ?e = ci_sh ?e \<and> (0::int) \<le> 2)" "pair_rsq ?e 2 0 < rcut2 ?e"
    "1 / 10 ^ 12 \<le> pair_rsq ?e 2 0"
    by (simp_all add: ex_rsq) (simp_all add: ex_env_def)
  have q: "pair_qq ?e 2 0 = - 1" "k_rf2 ?e = 1"
    by (simp_all add: pair_qq_def ex_aj) (simp_all add: ex_env_def)
  from excluded_pairs_mode [of ex_cfg_lj ?e 2 0 ex_acc] a
  have A: "pair_body ex_cfg_lj ?e 2 0 ex_acc = ex_acc" by blast
  from excluded_pairs_mode [of ex_cfg_rf ?e 2 0 ex_acc] b c ex_interact_excl
  have B: "\<not> pair_continue ex_cfg_rf ?e 2 0"
    "pair_Vvdw6 ex_cfg_rf ?e 2 0 = 0" "pair_Vvdw12 ex_cfg_rf ?e 2 0 = 0"
    "pair_fcoul ex_cfg_rf ?e 2 0
       = pair_qq ?e 2 0 * (0 * pair_rinv ?e 2 0 * pair_rinvsq ?e 2 0 - k_rf2 ?e)"
    by blast+
  from B(4) have "pair_fcoul ex_cfg_rf ?e 2 0 = 1" by (simp add: q)
  with a b A B(1-3) ex_interact_excl show ?thesis by simp
qed

text \<open>
  The claim as it stands fails for a force-only pass with electrostatics: energies are not
  required, the pair (2, 0) has its mask bit cleared, and yet the pair is not skipped;
  it is evaluated with \<open>interact = 0\<close> and changes both force buffers.
\<close>

theorem excluded_pairs_mode_counterexample:
  "\<not> CALC_ENERGIES ex_cfg_rf
   \<and> pair_interact ex_cfg_rf (ex_env\<lparr>cj_excl := 0xFEFF\<rparr>) 2 0 = 0
   \<and> fi (pair_body ex_cfg_rf (ex_env\<lparr>cj_excl := 0xFEFF\<rparr>) 2 0 ex_acc) 6 = - 2
   \<and> out_f (pair_body ex_cfg_rf (ex_env\<lparr>cj_excl := 0xFEFF\<rparr>) 2 0 ex_acc) 12 = 2
   \<and> pair_body ex_cfg_rf (ex_env\<lparr>cj_excl := 0xFEFF\<rparr>) 2 0 ex_acc \<noteq> ex_acc"
proof -
  let ?e = "ex_env\<lparr>cj_excl := 0xFEFF\<rparr>"
  have nc: "\<not> pair_continue ex_cfg_rf ?e 2 0" by (rule ex_not_continue)
  have v: "fi (pair_body ex_cfg_rf ?e 2 0 ex_acc) 6 = - 2"
    by (simp add: fi_pair_body [OF nc] ex_f_excl) (simp add: ex_acc_def)
  have w: "out_f (pair_body ex_cfg_rf ?e 2 0 ex_acc) 12 = 2"
    by (simp add: out_f_pair_body [OF nc] ex_f_excl ex_aj) (simp add: ex_acc_def)
  have "fi ex_acc 6 = 0" by (simp add: ex_acc_def)
  with v have "pair_body ex_cfg_rf ?e 2 0 ex_acc \<noteq> ex_acc" by auto
  with v w ex_interact_excl show ?thesis by (simp add: ex_cfg_rf_def)
qed

text \<open>
  What an excluded pair adds to the energies.  In neither mode does it change a van der
  Waals sum.  Without electrostatics it changes no Coulomb sum either; with the reaction
  field and energies, an evaluated excluded pair adds \<open>qq*(k_rf*rsq - c_rf)\<close> to the
  Coulomb energy.  The term that compensates for this in the total energy is computed
  outside the inner loop.
\<close>

lemma excluded_pair_energies:
  assumes "CHECK_EXCLS cfg" and "pair_interact cfg e i j = 0"
  shows "Vvdw_ci (pair_body cfg e i j s) = Vvdw_ci s"
    and "Vvdw (pair_body cfg e i j s) = Vvdw s"
    and "\<not> CALC_COULOMB cfg \<Longrightarrow>
           Vc_ci (pair_body cfg e i j s) = Vc_ci s \<and> Vc (pair_body cfg e i j s) = Vc s"
    and "CALC_COULOMB cfg \<Longrightarrow> CALC_COUL_RF cfg \<Longrightarrow> CALC_ENERGIES cfg \<Longrightarrow>
         \<not> ENERGY_GROUPS cfg \<Longrightarrow> \<not> pair_continue cfg e i j \<Longrightarrow>
           Vc_ci (pair_body cfg e i j s)
             = Vc_ci s + pair_qq e i j * (k_rf e * pair_rsq e i j - c_rf e)"
proof -
  note v = vdw_zero_if_no_interact [OF assms(2)]
  show "Vvdw_ci (pair_body cfg e i j s) = Vvdw_ci s"
    using v by (simp add: pair_body_def add_forces_def add_Vc_def add_Vvdw_def count_pair_def)
  show "Vvdw (pair_body cfg e i j s) = Vvdw s"
    using v by (simp add: pair_body_def add_forces_def add_Vc_def add_Vvdw_def count_pair_def)
  show "\<not> CALC_COULOMB cfg \<Longrightarrow>
          Vc_ci (pair_body cfg e i j s) = Vc_ci s \<and> Vc (pair_body cfg e i j s) = Vc s"
    by (simp add: pair_body_def add_forces_def add_Vc_def add_Vvdw_def count_pair_def)
  show "CALC_COULOMB cfg \<Longrightarrow> CALC_COUL_RF cfg \<Longrightarrow> CALC_ENERGIES cfg \<Longrightarrow>
         \<not> ENERGY_GROUPS cfg \<Longrightarrow> \<not> pair_continue cfg e i j \<Longrightarrow>
           Vc_ci (pair_body cfg e i j s)
             = Vc_ci s + pair_qq e i j * (k_rf e * pair_rsq e i j - c_rf e)"
    using assms(2)
    by (simp add: pair_body_def add_forces_def add_Vc_def add_Vvdw_def count_pair_def
        pair_vcoul_def)
qed

text \<open>
  C5 (guard for tiny distances).  When exclusion forces are compiled in, a pair with
  \<open>rsq < 1e-12\<close> is skipped before \<open>gmx_invsqrt\<close> is reached, and therefore every pair for
  which the reciprocal square root is taken has \<open>rsq >= 1e-12\<close>: its \<open>rinv\<close> is at most
  \<open>1e6\<close> and its \<open>rinvsix\<close> at most \<open>1e36\<close>, below the largest single-precision number.
\<close>

theorem near_zero_guard:
  assumes "EXCL_FORCES cfg"
  shows "(pair_rsq e i j < 1 / 10 ^ 12 \<longrightarrow>
            pair_continue cfg e i j \<and> pair_body cfg e i j s = s)
       \<and> (\<not> pair_continue cfg e i j \<longrightarrow>
            1 / 10 ^ 12 \<le> pair_rsq e i j
          \<and> pair_rinv e i j \<le> 10 ^ 6
          \<and> \<bar>pair_rinvsix cfg e i j\<bar> \<le> 10 ^ 36)"
proof (intro conjI impI)
  assume "pair_rsq e i j < 1 / 10 ^ 12"
  then show c: "pair_continue cfg e i j" using assms by (simp add: pair_continue_def)
  then show "pair_body cfg e i j s = s" by (simp add: pair_body_def)
next
  assume nc: "\<not> pair_continue cfg e i j"
  then show r: "1 / 10 ^ 12 \<le> pair_rsq e i j"
    using assms by (simp add: pair_continue_def split: if_splits)
  from rinv_bound [OF r] have b: "0 < pair_rinv e i j" "pair_rinv e i j \<le> 10 ^ 6"
    by (simp_all add: pair_rinv_def)
  then show "pair_rinv e i j \<le> 10 ^ 6" by simp
  have "pair_rinv e i j ^ 6 \<le> (10 ^ 6) ^ 6"
    using b by (intro power_mono) simp_all
  then have six: "pair_rinvsq e i j * pair_rinvsq e i j * pair_rinvsq e i j \<le> 10 ^ 36"
    by (simp add: pair_rinvsq_def power_def)
  have nn: "0 \<le> pair_rinvsq e i j * pair_rinvsq e i j * pair_rinvsq e i j"
    by (simp add: pair_rinvsq_def)
  from pair_interact_01 [of cfg e i j]
  show "\<bar>pair_rinvsix cfg e i j\<bar> \<le> 10 ^ 36"
    using six nn by (auto simp: pair_rinvsix_def)
qed

theorem near_zero_guard_witness:
  "EXCL_FORCES ex_cfg_rf
   \<and> pair_rsq (ex_env\<lparr>nbat_x := (\<lambda>k. 0)\<rparr>) 0 0 < 1 / 10 ^ 12
   \<and> pair_body ex_cfg_rf (ex_env\<lparr>nbat_x := (\<lambda>k. 0)\<rparr>) 0 0 ex_acc = ex_acc
   \<and> \<not> pair_continue ex_cfg_rf ex_env 2 0
   \<and> 1 / 10 ^ 12 \<le> pair_rsq ex_env 2 0
   \<and> pair_rinv ex_env 2 0 \<le> 10 ^ 6
   \<and> \<bar>pair_rinvsix ex_cfg_rf ex_env 2 0\<bar> \<le> 10 ^ 36"
proof -
  have h: "EXCL_FORCES ex_cfg_rf" by (simp add: EXCL_FORCES_def ex_cfg_rf_def)
  have z: "pair_rsq (ex_env\<lparr>nbat_x := (\<lambda>k. 0)\<rparr>) 0 0 < 1 / 10 ^ 12"
    by (simp add: pair_rsq_def pair_dx_def pair_dy_def pair_dz_def ex_env_def)
  have nc: "\<not> pair_continue ex_cfg_rf ex_env 2 0"
    using ex_not_continue [of "0xFFFF"] by (simp add: ex_env_triv)
  from near_zero_guard [OF h, of "ex_env\<lparr>nbat_x := (\<lambda>k. 0)\<rparr>" 0 0 ex_acc] z
  have A: "pair_body ex_cfg_rf (ex_env\<lparr>nbat_x := (\<lambda>k. 0)\<rparr>) 0 0 ex_acc = ex_acc" by blast
  from near_zero_guard [OF h, of ex_env 2 0 ex_acc] nc
  have B: "1 / 10 ^ 12 \<le> pair_rsq ex_env 2 0" "pair_rinv ex_env 2 0 \<le> 10 ^ 6"
    "\<bar>pair_rinvsix ex_cfg_rf ex_env 2 0\<bar> \<le> 10 ^ 36" by blast+
  from h z A nc B show ?thesis by blast
qed

text \<open>
  C6 (a single pair under the reaction field), as amended.  For an evaluated, non-excluded
  pair with zero Lennard-Jones parameters, the Coulomb force scalar is
  \<open>fcoul = qq*(rinv*rinvsq - k_rf2)\<close>, the force vector is \<open>fcoul\<close> times the displacement,
  and so the magnitude of the force applied to each of the two particles is \<open>|fcoul|\<close>
  times the distance \<open>sqrt rsq\<close>, not \<open>fcoul\<close> times \<open>rinv\<close>.
\<close>

theorem rf_single_pair:
  assumes "CALC_COULOMB cfg" and "CALC_COUL_RF cfg"
      and "pair_interact cfg e i j = 1"
      and "\<not> pair_continue cfg e i j"
      and "nbfp e (type_i_off e i + nbat_type e (pair_aj e j) * 2) = 0"
      and "nbfp e (type_i_off e i + nbat_type e (pair_aj e j) * 2 + 1) = 0"
      and "s' = pair_body cfg e i j s"
  shows "pair_fcoul cfg e i j
           = pair_qq e i j * (pair_rinv e i j * pair_rinvsq e i j - k_rf2 e)
       \<and> pair_fx cfg e i j = pair_fcoul cfg e i j * pair_dx e i j
       \<and> pair_fy cfg e i j = pair_fcoul cfg e i j * pair_dy e i j
       \<and> pair_fz cfg e i j = pair_fcoul cfg e i j * pair_dz e i j
       \<and> pair_fmag cfg e i j
           = \<bar>pair_qq e i j * (pair_rinv e i j * pair_rinvsq e i j - k_rf2 e)\<bar>
               * sqrt (pair_rsq e i j)
       \<and> sqrt ((fi s' (i * 3 + 0) - fi s (i * 3 + 0))\<^sup>2
               + (fi s' (i * 3 + 1) - fi s (i * 3 + 1))\<^sup>2
               + (fi s' (i * 3 + 2) - fi s (i * 3 + 2))\<^sup>2) = pair_fmag cfg e i j
       \<and> sqrt ((out_f s' (pair_aj e j * 3 + 0) - out_f s (pair_aj e j * 3 + 0))\<^sup>2
               + (out_f s' (pair_aj e j * 3 + 1) - out_f s (pair_aj e j * 3 + 1))\<^sup>2
               + (out_f s' (pair_aj e j * 3 + 2) - out_f s (pair_aj e j * 3 + 2))\<^sup>2)
           = pair_fmag cfg e i j"
proof -
  have fc: "pair_fcoul cfg e i j
      = pair_qq e i j * (pair_rinv e i j * pair_rinvsq e i j - k_rf2 e)"
    using assms(2,3) by (simp add: pair_fcoul_def)
  have v: "pair_Vvdw6 cfg e i j = 0" "pair_Vvdw12 cfg e i j = 0"
    using vdw_zero_if_no_params [OF assms(5,6)] by simp_all
  have f: "pair_fcomp cfg e i j d = pair_fcoul cfg e i j * d" for d
    using assms(1) v by (simp add: pair_fcomp_def)
  have m: "pair_fmag cfg e i j = \<bar>pair_fcoul cfg e i j\<bar> * sqrt (pair_rsq e i j)"
    by (rule fmag_scalar) (simp_all add: f pair_fx_def pair_fy_def pair_fz_def)
  have di: "fi s' (i * 3 + 0) - fi s (i * 3 + 0) = pair_fx cfg e i j"
           "fi s' (i * 3 + 1) - fi s (i * 3 + 1) = pair_fy cfg e i j"
           "fi s' (i * 3 + 2) - fi s (i * 3 + 2) = pair_fz cfg e i j"
    using assms(4,7) by (simp_all add: fi_pair_body)
  have dj: "out_f s' (pair_aj e j * 3 + 0) - out_f s (pair_aj e j * 3 + 0) = - pair_fx cfg e i j"
           "out_f s' (pair_aj e j * 3 + 1) - out_f s (pair_aj e j * 3 + 1) = - pair_fy cfg e i j"
           "out_f s' (pair_aj e j * 3 + 2) - out_f s (pair_aj e j * 3 + 2) = - pair_fz cfg e i j"
    using assms(4,7) by (simp_all add: out_f_pair_body)
  have c: "pair_fx cfg e i j = pair_fcoul cfg e i j * pair_dx e i j"
           "pair_fy cfg e i j = pair_fcoul cfg e i j * pair_dy e i j"
           "pair_fz cfg e i j = pair_fcoul cfg e i j * pair_dz e i j"
    by (simp_all add: f pair_fx_def pair_fy_def pair_fz_def)
  have n: "sqrt ((- pair_fx cfg e i j)\<^sup>2 + (- pair_fy cfg e i j)\<^sup>2 + (- pair_fz cfg e i j)\<^sup>2)
      = pair_fmag cfg e i j"
    by (simp add: pair_fmag_def)
  show ?thesis
    unfolding di dj n using m fc c by (simp add: pair_fmag_def)
qed

theorem rf_single_pair_witness:
  "CALC_COULOMB ex_cfg_rf \<and> CALC_COUL_RF ex_cfg_rf
   \<and> pair_interact ex_cfg_rf ex_env 2 0 = 1
   \<and> \<not> pair_continue ex_cfg_rf ex_env 2 0
   \<and> qi ex_env 2 = 1 \<and> nbat_q ex_env (pair_aj ex_env 0) = - 1
   \<and> pair_fcoul ex_cfg_rf ex_env 2 0 = 7 / 8
   \<and> pair_fmag ex_cfg_rf ex_env 2 0 = 7 / 8 * 2
   \<and> sqrt ((fi (pair_body ex_cfg_rf ex_env 2 0 ex_acc) 6 - fi ex_acc 6)\<^sup>2
          + (fi (pair_body ex_cfg_rf ex_env 2 0 ex_acc) 7 - fi ex_acc 7)\<^sup>2
          + (fi (pair_body ex_cfg_rf ex_env 2 0 ex_acc) 8 - fi ex_acc 8)\<^sup>2) = 7 / 4
   \<and> sqrt ((out_f (pair_body ex_cfg_rf ex_env 2 0 ex_acc) 12 - out_f ex_acc 12)\<^sup>2
          + (out_f (pair_body ex_cfg_rf ex_env 2 0 ex_acc) 13 - out_f ex_acc 13)\<^sup>2
          + (out_f (pair_body ex_cfg_rf ex_env 2 0 ex_acc) 14 - out_f ex_acc 14)\<^sup>2) = 7 / 4"
proof -
  have c: "CALC_COULOMB ex_cfg_rf" "CALC_COUL_RF ex_cfg_rf" by (simp_all add: ex_cfg_rf_def)
  have i: "pair_interact ex_cfg_rf ex_env 2 0 = 1"
    using ex_interact_full by (simp add: ex_env_triv)
  have nc: "\<not> pair_continue ex_cfg_rf ex_env 2 0"
    using ex_not_continue [of "0xFFFF"] by (simp add: ex_env_triv)
  have aj: "pair_aj ex_env 0 = 4" using ex_aj [of "0xFFFF"] by (simp add: ex_env_triv)
  have lj: "nbfp ex_env (type_i_off ex_env 2 + nbat_type ex_env (pair_aj ex_env 0) * 2) = 0"
    "nbfp ex_env (type_i_off ex_env 2 + nbat_type ex_env (pair_aj ex_env 0) * 2 + 1) = 0"
    by (simp_all add: ex_env_def)
  have r: "pair_rinv ex_env 2 0 = 1 / 2" "pair_rsq ex_env 2 0 = 4"
    using ex_rinv [of "0xFFFF"] ex_rsq [of "0xFFFF"] by (simp_all add: ex_env_triv)
  have q: "pair_qq ex_env 2 0 = - 1" by (simp add: pair_qq_def aj ex_q)
  from rf_single_pair [OF c i nc lj refl, of ex_acc]
  show ?thesis
    using c i nc aj ex_q by (simp add: r q pair_rinvsq_def sqrt4)
qed

text \<open>
  The claim as it stands fails at distance 2: with \<open>qq = -1\<close> and \<open>k_rf2 = 1\<close> the kernel
  applies a force of magnitude 7/4 to each particle, while the formula of the claim
  gives 7/16.
\<close>

theorem rf_magnitude_formula_counterexample:
  "\<not> pair_continue ex_cfg_rf ex_env 2 0
   \<and> pair_interact ex_cfg_rf ex_env 2 0 = 1
   \<and> qi ex_env 2 = 1 \<and> nbat_q ex_env (pair_aj ex_env 0) = - 1
   \<and> pair_fmag ex_cfg_rf ex_env 2 0 = 7 / 4
   \<and> pair_qq ex_env 2 0 * (pair_rinv ex_env 2 0 * pair_rinvsq ex_env 2 0 - k_rf2 ex_env)
        * pair_rinv ex_env 2 0 = 7 / 16
   \<and> pair_fmag ex_cfg_rf ex_env 2 0
       \<noteq> pair_qq ex_env 2 0 * (pair_rinv ex_env 2 0 * pair_rinvsq ex_env 2 0 - k_rf2 ex_env)
            * pair_rinv ex_env 2 0"
  using ex_not_continue [of "0xFFFF"] ex_interact_full ex_q ex_aj [of "0xFFFF"] ex_fmag_full
    ex_formula [of "0xFFFF"]
  unfolding ex_env_triv by simp


text \<open>
  C8 (half-LJ invariant).  In a \<open>HALF_LJ\<close> kernel, a pair whose i-particle lies in the
  second half of the i-cluster has \<open>Vvdw6 = Vvdw12 = 0\<close>, leaves both van der Waals energy
  accumulators untouched, and receives the Coulomb term alone as its force (no force at
  all in a variant without electrostatics).
\<close>

theorem half_lj_invariant:
  assumes "HALF_LJ cfg" and "UNROLLI e div 2 \<le> i"
  shows "pair_Vvdw6 cfg e i j = 0 \<and> pair_Vvdw12 cfg e i j = 0
       \<and> Vvdw_ci (pair_body cfg e i j s) = Vvdw_ci s
       \<and> Vvdw (pair_body cfg e i j s) = Vvdw s
       \<and> (CALC_COULOMB cfg \<longrightarrow>
            pair_fx cfg e i j = pair_fcoul cfg e i j * pair_dx e i j
          \<and> pair_fy cfg e i j = pair_fcoul cfg e i j * pair_dy e i j
          \<and> pair_fz cfg e i j = pair_fcoul cfg e i j * pair_dz e i j)
       \<and> (\<not> CALC_COULOMB cfg \<longrightarrow>
            pair_fx cfg e i j = 0 \<and> pair_fy cfg e i j = 0 \<and> pair_fz cfg e i j = 0)"
proof -
  have nb: "\<not> lj_block cfg e i" using assms by (simp add: lj_block_def)
  have v: "pair_Vvdw6 cfg e i j = 0" "pair_Vvdw12 cfg e i j = 0"
    using nb by (simp_all add: pair_Vvdw6_def pair_Vvdw12_def)
  have a: "Vvdw_ci (pair_body cfg e i j s) = Vvdw_ci s" "Vvdw (pair_body cfg e i j s) = Vvdw s"
    using nb by (simp_all add: pair_body_def add_forces_def add_Vc_def add_Vvdw_def count_pair_def)
  have f: "pair_fcomp cfg e i j d = (if CALC_COULOMB cfg then pair_fcoul cfg e i j * d else 0)"
    for d using nb v by (simp add: pair_fcomp_def)
  show ?thesis using v a by (simp add: f pair_fx_def pair_fy_def pair_fz_def)
qed

theorem half_lj_invariant_witness:
  "HALF_LJ (ex_cfg_rf\<lparr>HALF_LJ := True, CALC_ENERGIES := True\<rparr>)
   \<and> UNROLLI (ex_env\<lparr>nbfp := (\<lambda>k. 1)\<rparr>) div 2 \<le> 2
   \<and> CALC_COULOMB (ex_cfg_rf\<lparr>HALF_LJ := True, CALC_ENERGIES := True\<rparr>)
   \<and> pair_Vvdw6 (ex_cfg_rf\<lparr>HALF_LJ := True, CALC_ENERGIES := True\<rparr>)
       (ex_env\<lparr>nbfp := (\<lambda>k. 1)\<rparr>) 2 0 = 0
   \<and> pair_Vvdw12 (ex_cfg_rf\<lparr>HALF_LJ := True, CALC_ENERGIES := True\<rparr>)
       (ex_env\<lparr>nbfp := (\<lambda>k. 1)\<rparr>) 2 0 = 0
   \<and> Vvdw_ci (pair_body (ex_cfg_rf\<lparr>HALF_LJ := True, CALC_ENERGIES := True\<rparr>)
       (ex_env\<lparr>nbfp := (\<lambda>k. 1)\<rparr>) 2 0 ex_acc) = Vvdw_ci ex_acc
   \<and> pair_fx (ex_cfg_rf\<lparr>HALF_LJ := True, CALC_ENERGIES := True\<rparr>)
       (ex_env\<lparr>nbfp := (\<lambda>k. 1)\<rparr>) 2 0
       = pair_fcoul (ex_cfg_rf\<lparr>HALF_LJ := True, CALC_ENERGIES := True\<rparr>)
           (ex_env\<lparr>nbfp := (\<lambda>k. 1)\<rparr>) 2 0 * pair_dx (ex_env\<lparr>nbfp := (\<lambda>k. 1)\<rparr>) 2 0"
proof -
  have h: "HALF_LJ (ex_cfg_rf\<lparr>HALF_LJ := True, CALC_ENERGIES := True\<rparr>)"
    "UNROLLI (ex_env\<lparr>nbfp := (\<lambda>k. 1)\<rparr>) div 2 \<le> 2"
    by (simp_all add: ex_env_def)
  have c: "CALC_COULOMB (ex_cfg_rf\<lparr>HALF_LJ := True, CALC_ENERGIES := True\<rparr>)"
    by (simp add: ex_cfg_rf_def)
  from half_lj_invariant [OF h, of 0 ex_acc] h c show ?thesis by blast
qed

section \<open>Properties of the comparison method\<close>

subsection \<open>Auxiliary facts\<close>

lemmas cmp_flag_defs = CMP_SINGLEVAL_def CMP_DYNAMICVAL_def CMP_REALVAL_def CMP_ALLOCINT_def
  CMP_ALLOCREAL_def

lemma c_trunc_of_int: "c_trunc (of_int k) = k"
  by (simp add: c_trunc_def)

lemma c_int_cast_of_int:
  "c_int_cast (of_int k) = (if - (2 ^ 31) \<le> k \<and> k < 2 ^ 31 then Inr k else Inl UndefinedCast)"
  by (simp add: c_int_cast_def c_trunc_of_int)

lemma round_value_order:
  "round_value t v = Inr k \<Longrightarrow>
     (t = CMP_LESS \<or> t = CMP_GEQ) \<and> k = \<lceil>v\<rceil> \<or> (t = CMP_GTR \<or> t = CMP_LEQ) \<and> k = \<lfloor>v\<rfloor>"
  by (cases t) (auto simp: round_value_def c_int_cast_of_int split: if_splits)

lemma convert_loop_nth:
  "convert_loop t rv ks = Inr vs \<Longrightarrow>
     length vs = length ks \<and> (\<forall>m < length ks. round_value t (rv ! (ks ! m)) = Inr (vs ! m))"
proof (induction ks arbitrary: vs)
  case Nil
  then show ?case by simp
next
  case (Cons k ks)
  from Cons.prems obtain v vs' where
    v: "round_value t (rv ! k) = Inr v" and vs': "convert_loop t rv ks = Inr vs'"
    and e: "vs = v # vs'"
    by (auto split: sum.splits)
  from Cons.IH [OF vs'] have ih: "length vs' = length ks"
    "\<forall>m < length ks. round_value t (rv ! (ks ! m)) = Inr (vs' ! m)" by simp_all
  show ?case
  proof (intro conjI allI impI)
    show "length vs = length (k # ks)" using e ih by simp
  next
    fix m assume "m < length (k # ks)"
    then show "round_value t (rv ! ((k # ks) ! m)) = Inr (vs ! m)"
      using v ih e by (cases m) simp_all
  qed
qed

lemma convert_real_int_nth:
  assumes "convert_real_int n val t bRight = Inr val'" and "k < nat n"
  shows "round_value (if bRight then t else reverse_comparison_type t) (rvals val ! k)
           = Inr (ivals val' ! k)"
proof -
  let ?t = "if \<not> bRight then reverse_comparison_type t else t"
  from assms(1) obtain iv where iv: "convert_loop ?t (rvals val) [0 ..< nat n] = Inr iv"
    and v: "ivals val' = iv"
    by (auto simp: convert_real_int_def split: sum.splits)
  from convert_loop_nth [OF iv] assms(2)
  have "round_value ?t (rvals val ! ([0 ..< nat n] ! k)) = Inr (iv ! k)" by simp
  then show ?thesis using assms(2) v by (cases bRight) simp_all
qed

lemma realval_cleared: "((f::int) AND NOT CMP_REALVAL OR CMP_ALLOCINT) AND CMP_REALVAL = 0"
  by (simp add: bit.conj_disj_distrib2 and.assoc cmp_flag_defs)

lemma convert_loop_throws:
  "ks \<noteq> [] \<Longrightarrow> t = CMP_EQUAL \<or> t = CMP_NEQ \<Longrightarrow>
     convert_loop t rv ks = Inl (NotImplementedError
       ''Equality comparison between dynamic integer and static real expressions not implemented'')"
  by (cases ks) (auto simp: round_value_def)

lemma convert_loop_ok:
  assumes "t \<in> {CMP_LESS, CMP_LEQ, CMP_GTR, CMP_GEQ}"
      and "\<forall>k \<in> set ks. - (2 ^ 31) \<le> \<lfloor>rv ! k\<rfloor> \<and> \<lceil>rv ! k\<rceil> < 2 ^ 31"
  shows "convert_loop t rv ks
       = Inr (map (\<lambda>k. if t = CMP_LESS \<or> t = CMP_GEQ then \<lceil>rv ! k\<rceil> else \<lfloor>rv ! k\<rfloor>) ks)"
  using assms(2)
proof (induction ks)
  case Nil
  then show ?case by simp
next
  case (Cons k ks)
  have fl: "\<lfloor>rv ! k\<rfloor> \<le> \<lceil>rv ! k\<rceil>" by (rule floor_le_ceiling)
  from Cons.prems have b: "- (2 ^ 31) \<le> \<lfloor>rv ! k\<rfloor>" "\<lceil>rv ! k\<rceil> < 2 ^ 31" by simp_all
  with fl have b': "- (2 ^ 31) \<le> \<lceil>rv ! k\<rceil>" "\<lfloor>rv ! k\<rfloor> < 2 ^ 31" by linarith+
  have "convert_loop t rv ks
       = Inr (map (\<lambda>k. if t = CMP_LESS \<or> t = CMP_GEQ then \<lceil>rv ! k\<rceil> else \<lfloor>rv ! k\<rfloor>) ks)"
    using Cons by simp
  then show ?case using assms(1) b b'
    by (auto simp: round_value_def c_int_cast_of_int)
qed

lemma convert_real_int_throws:
  assumes "0 < n" and "t = CMP_EQUAL \<or> t = CMP_NEQ"
  shows "convert_real_int n val t bRight = Inl (NotImplementedError
       ''Equality comparison between dynamic integer and static real expressions not implemented'')"
proof -
  have ne: "[0 ..< nat n] \<noteq> []" using assms(1) by simp
  have t': "(if \<not> bRight then reverse_comparison_type t else t) = CMP_EQUAL
          \<or> (if \<not> bRight then reverse_comparison_type t else t) = CMP_NEQ"
    using assms(2) by auto
  show ?thesis
    unfolding convert_real_int_def convert_loop_throws [OF ne t'] by simp
qed

lemma convert_real_int_ok:
  assumes "t \<in> {CMP_LESS, CMP_LEQ, CMP_GTR, CMP_GEQ}"
      and "\<forall>k < nat n. - (2 ^ 31) \<le> \<lfloor>rvals val ! k\<rfloor> \<and> \<lceil>rvals val ! k\<rceil> < 2 ^ 31"
  shows "\<exists>iv. convert_real_int n val t bRight
           = Inr (val\<lparr>ivals := iv, flags := (flags val AND NOT CMP_REALVAL) OR CMP_ALLOCINT\<rparr>)"
proof -
  let ?t = "if \<not> bRight then reverse_comparison_type t else t"
  have t': "?t \<in> {CMP_LESS, CMP_LEQ, CMP_GTR, CMP_GEQ}" using assms(1) by auto
  have r: "\<forall>k \<in> set [0 ..< nat n]. - (2 ^ 31) \<le> \<lfloor>rvals val ! k\<rfloor> \<and> \<lceil>rvals val ! k\<rceil> < 2 ^ 31"
    using assms(2) by simp
  show ?thesis
    unfolding convert_real_int_def convert_loop_ok [OF t' r] by auto
qed

lemma init_compare_int_left_real_right:
  assumes "SPAR_SET (param 0)" "SPAR_DYNAMIC (param 0)" "val_nr (param 0) \<noteq> 0"
      and "\<not> SPAR_SET (param 3)"
      and "SPAR_SET (param 4)" "\<not> SPAR_DYNAMIC (param 4)" "val_nr (param 4) \<noteq> 0"
      and "comparison_type (cmpop d) \<noteq> CMP_INVALID"
  shows "init_compare param d =
     (case convert_real_int (val_nr (param 4))
             (snd (init_comparison_value (right d) (param 3) (param 4)))
             (comparison_type (cmpop d)) True of
        Inl err \<Rightarrow> Inl err
      | Inr r' \<Rightarrow> Inr (d\<lparr>left := snd (init_comparison_value (left d) (param 0) (param 1)),
                          right := r', cmpt := comparison_type (cmpop d)\<rparr>))"
  using assms
  by (cases "SPAR_ATOMVAL (param 0)"; cases "SPAR_ATOMVAL (param 4)")
    (simp_all add: init_compare_def init_comparison_value_def cmp_flag_defs Let_def
      split: sum.splits)

lemma init_compare_real_left_int_right:
  assumes "\<not> SPAR_SET (param 0)"
      and "SPAR_SET (param 1)" "\<not> SPAR_DYNAMIC (param 1)" "val_nr (param 1) \<noteq> 0"
      and "SPAR_SET (param 3)" "SPAR_DYNAMIC (param 3)" "val_nr (param 3) \<noteq> 0"
      and "comparison_type (cmpop d) \<noteq> CMP_INVALID"
  shows "init_compare param d =
     (case convert_real_int (val_nr (param 1))
             (snd (init_comparison_value (left d) (param 0) (param 1)))
             (comparison_type (cmpop d)) False of
        Inl err \<Rightarrow> Inl err
      | Inr l' \<Rightarrow> Inr (d\<lparr>left := l',
                          right := snd (init_comparison_value (right d) (param 3) (param 4)),
                          cmpt := comparison_type (cmpop d)\<rparr>))"
  using assms
  by (cases "SPAR_ATOMVAL (param 1)"; cases "SPAR_ATOMVAL (param 3)")
    (simp_all add: init_compare_def init_comparison_value_def cmp_flag_defs Let_def
      split: sum.splits)

lemma icv_int_flags:
  "SPAR_SET p0 \<Longrightarrow> flags (snd (init_comparison_value val p0 p1)) AND CMP_REALVAL = 0"
  by (cases "SPAR_DYNAMIC p0"; cases "SPAR_ATOMVAL p0")
    (simp_all add: init_comparison_value_def cmp_flag_defs)

lemma icv_real_rvals:
  "\<not> SPAR_SET p0 \<Longrightarrow> SPAR_SET p1 \<Longrightarrow>
     rvals (snd (init_comparison_value val p0 p1)) = val_u_r p1"
  by (simp add: init_comparison_value_def)

lemma ex_convert_right:
  "convert_real_int 1 \<lparr>flags = 5, ivals = [], rvals = [5 / 2]\<rparr> CMP_LESS True
     = Inr \<lparr>flags = 17, ivals = [3], rvals = [5 / 2]\<rparr>"
  by (simp add: convert_real_int_def round_value_def c_int_cast_def c_trunc_def cmp_flag_defs)

lemma ex_convert_left:
  "convert_real_int 1 \<lparr>flags = 5, ivals = [], rvals = [5 / 2]\<rparr> CMP_LESS False
     = Inr \<lparr>flags = 17, ivals = [2], rvals = [5 / 2]\<rparr>"
  by (simp add: convert_real_int_def round_value_def c_int_cast_def c_trunc_def cmp_flag_defs)

subsection \<open>The claims\<close>

text \<open>
  C9 (fail-fast of the comparison filter).  Let one operand be a dynamic integer and the
  other a static real, each with at least one value, on either side.  With \<open>==\<close> or \<open>!=\<close>,
  \<open>init_compare\<close> throws \<open>NotImplementedError\<close> with its message: the failure happens in
  the set-up and no method data reaches the evaluation.  With one of the four order
  operators the set-up succeeds (the rounded reals being in the range of \<^verbatim>\<open>int\<close>), keeps
  the operator, and leaves two integer operands.
\<close>

theorem compare_fail_fast:
  assumes "SPAR_SET pint" "SPAR_DYNAMIC pint" "0 < val_nr pint"
      and "SPAR_SET preal" "\<not> SPAR_DYNAMIC preal" "0 < val_nr preal"
      and "\<not> SPAR_SET punset"
      and "param 0 = pint \<and> param 3 = punset \<and> param 4 = preal
         \<or> param 0 = punset \<and> param 1 = preal \<and> param 3 = pint"
  shows "(comparison_type (cmpop d) \<in> {CMP_EQUAL, CMP_NEQ} \<longrightarrow>
            init_compare param d = Inl (NotImplementedError
              ''Equality comparison between dynamic integer and static real expressions not implemented''))
       \<and> (comparison_type (cmpop d) \<in> {CMP_LESS, CMP_LEQ, CMP_GTR, CMP_GEQ}
          \<and> (\<forall>k < nat (val_nr preal).
                - (2 ^ 31) \<le> \<lfloor>val_u_r preal ! k\<rfloor> \<and> \<lceil>val_u_r preal ! k\<rceil> < 2 ^ 31) \<longrightarrow>
            (\<exists>d'. init_compare param d = Inr d'
               \<and> cmpt d' = comparison_type (cmpop d)
               \<and> flags (left d') AND CMP_REALVAL = 0
               \<and> flags (right d') AND CMP_REALVAL = 0))"
  using assms(8)
proof (elim disjE conjE)
  assume p: "param 0 = pint" "param 3 = punset" "param 4 = preal"
  let ?r = "snd (init_comparison_value (right d) (param 3) (param 4))"
  have red: "comparison_type (cmpop d) \<noteq> CMP_INVALID \<Longrightarrow> init_compare param d =
     (case convert_real_int (val_nr (param 4)) ?r (comparison_type (cmpop d)) True of
        Inl err \<Rightarrow> Inl err
      | Inr r' \<Rightarrow> Inr (d\<lparr>left := snd (init_comparison_value (left d) (param 0) (param 1)),
                          right := r', cmpt := comparison_type (cmpop d)\<rparr>))"
    using assms(1-7) p by (intro init_compare_int_left_real_right) simp_all
  have rv: "rvals ?r = val_u_r preal"
    using assms(4,7) p by (simp add: icv_real_rvals)
  have lf: "flags (snd (init_comparison_value (left d) (param 0) (param 1))) AND CMP_REALVAL = 0"
    using assms(1) p by (simp add: icv_int_flags)
  show ?thesis
  proof (intro conjI impI)
    assume t: "comparison_type (cmpop d) \<in> {CMP_EQUAL, CMP_NEQ}"
    then have "comparison_type (cmpop d) \<noteq> CMP_INVALID" by auto
    from red [OF this] show "init_compare param d = Inl (NotImplementedError
        ''Equality comparison between dynamic integer and static real expressions not implemented'')"
      using t assms(6) p by (simp add: convert_real_int_throws)
  next
    assume a: "comparison_type (cmpop d) \<in> {CMP_LESS, CMP_LEQ, CMP_GTR, CMP_GEQ}
          \<and> (\<forall>k < nat (val_nr preal).
                - (2 ^ 31) \<le> \<lfloor>val_u_r preal ! k\<rfloor> \<and> \<lceil>val_u_r preal ! k\<rceil> < 2 ^ 31)"
    then have ni: "comparison_type (cmpop d) \<noteq> CMP_INVALID" by auto
    from a convert_real_int_ok [of "comparison_type (cmpop d)" "val_nr (param 4)" ?r True]
    obtain iv where "convert_real_int (val_nr (param 4)) ?r (comparison_type (cmpop d)) True
           = Inr (?r\<lparr>ivals := iv, flags := (flags ?r AND NOT CMP_REALVAL) OR CMP_ALLOCINT\<rparr>)"
      using rv p by auto
    with red [OF ni] show "\<exists>d'. init_compare param d = Inr d'
               \<and> cmpt d' = comparison_type (cmpop d)
               \<and> flags (left d') AND CMP_REALVAL = 0
               \<and> flags (right d') AND CMP_REALVAL = 0"
      using lf by (simp add: realval_cleared)
  qed
next
  assume p: "param 0 = punset" "param 1 = preal" "param 3 = pint"
  let ?l = "snd (init_comparison_value (left d) (param 0) (param 1))"
  have red: "comparison_type (cmpop d) \<noteq> CMP_INVALID \<Longrightarrow> init_compare param d =
     (case convert_real_int (val_nr (param 1)) ?l (comparison_type (cmpop d)) False of
        Inl err \<Rightarrow> Inl err
      | Inr l' \<Rightarrow> Inr (d\<lparr>left := l',
                          right := snd (init_comparison_value (right d) (param 3) (param 4)),
                          cmpt := comparison_type (cmpop d)\<rparr>))"
    using assms(1-7) p by (intro init_compare_real_left_int_right) simp_all
  have rv: "rvals ?l = val_u_r preal"
    using assms(4,7) p by (simp add: icv_real_rvals)
  have rf: "flags (snd (init_comparison_value (right d) (param 3) (param 4))) AND CMP_REALVAL = 0"
    using assms(1) p by (simp add: icv_int_flags)
  show ?thesis
  proof (intro conjI impI)
    assume t: "comparison_type (cmpop d) \<in> {CMP_EQUAL, CMP_NEQ}"
    then have "comparison_type (cmpop d) \<noteq> CMP_INVALID" by auto
    from red [OF this] show "init_compare param d = Inl (NotImplementedError
        ''Equality comparison between dynamic integer and static real expressions not implemented'')"
      using t assms(6) p by (simp add: convert_real_int_throws)
  next
    assume a: "comparison_type (cmpop d) \<in> {CMP_LESS, CMP_LEQ, CMP_GTR, CMP_GEQ}
          \<and> (\<forall>k < nat (val_nr preal).
                - (2 ^ 31) \<le> \<lfloor>val_u_r preal ! k\<rfloor> \<and> \<lceil>val_u_r preal ! k\<rceil> < 2 ^ 31)"
    then have ni: "comparison_type (cmpop d) \<noteq> CMP_INVALID" by auto
    from a convert_real_int_ok [of "comparison_type (cmpop d)" "val_nr (param 1)" ?l False]
    obtain iv where "convert_real_int (val_nr (param 1)) ?l (comparison_type (cmpop d)) False
           = Inr (?l\<lparr>ivals := iv, flags := (flags ?l AND NOT CMP_REALVAL) OR CMP_ALLOCINT\<rparr>)"
      using rv p by auto
    with red [OF ni] show "\<exists>d'. init_compare param d = Inr d'
               \<and> cmpt d' = comparison_type (cmpop d)
               \<and> flags (left d') AND CMP_REALVAL = 0
               \<and> flags (right d') AND CMP_REALVAL = 0"
      using rf by (simp add: realval_cleared)
  qed
qed

theorem compare_fail_fast_witness:
  "SPAR_SET ex_dyn_int \<and> SPAR_DYNAMIC ex_dyn_int \<and> 0 < val_nr ex_dyn_int
   \<and> SPAR_SET ex_static_real \<and> \<not> SPAR_DYNAMIC ex_static_real \<and> 0 < val_nr ex_static_real
   \<and> \<not> SPAR_SET ex_unset
   \<and> comparison_type (cmpop (ex_data ''=='')) = CMP_EQUAL
   \<and> init_compare ex_param_int_real (ex_data ''=='') = Inl (NotImplementedError
        ''Equality comparison between dynamic integer and static real expressions not implemented'')
   \<and> comparison_type (cmpop (ex_data ''<'')) = CMP_LESS
   \<and> (\<exists>d'. init_compare ex_param_real_int (ex_data ''<'') = Inr d'
          \<and> cmpt d' = CMP_LESS
          \<and> flags (left d') AND CMP_REALVAL = 0 \<and> flags (right d') AND CMP_REALVAL = 0)"
proof -
  have i: "SPAR_SET ex_dyn_int" "SPAR_DYNAMIC ex_dyn_int" "0 < val_nr ex_dyn_int"
    by (simp_all add: ex_dyn_int_def)
  have r: "SPAR_SET ex_static_real" "\<not> SPAR_DYNAMIC ex_static_real" "0 < val_nr ex_static_real"
    by (simp_all add: ex_static_real_def)
  have u: "\<not> SPAR_SET ex_unset" by (simp add: ex_unset_def)
  have a: "ex_param_int_real 0 = ex_dyn_int \<and> ex_param_int_real 3 = ex_unset
         \<and> ex_param_int_real 4 = ex_static_real
         \<or> ex_param_int_real 0 = ex_unset \<and> ex_param_int_real 1 = ex_static_real
         \<and> ex_param_int_real 3 = ex_dyn_int"
    by (simp add: ex_param_int_real_def)
  have b: "ex_param_real_int 0 = ex_dyn_int \<and> ex_param_real_int 3 = ex_unset
         \<and> ex_param_real_int 4 = ex_static_real
         \<or> ex_param_real_int 0 = ex_unset \<and> ex_param_real_int 1 = ex_static_real
         \<and> ex_param_real_int 3 = ex_dyn_int"
    by (simp add: ex_param_real_int_def)
  have te: "comparison_type (cmpop (ex_data ''=='')) = CMP_EQUAL"
    by (simp add: comparison_type_def c_char_def ex_data_def)
  have tl: "comparison_type (cmpop (ex_data ''<'')) = CMP_LESS"
    by (simp add: comparison_type_def c_char_def ex_data_def)
  have fits: "\<forall>k < nat (val_nr ex_static_real).
      - (2 ^ 31) \<le> \<lfloor>val_u_r ex_static_real ! k\<rfloor> \<and> \<lceil>val_u_r ex_static_real ! k\<rceil> < 2 ^ 31"
    by (simp add: ex_static_real_def)
  from compare_fail_fast [OF i r u a, of "ex_data ''==''"] te
  have A: "init_compare ex_param_int_real (ex_data ''=='') = Inl (NotImplementedError
        ''Equality comparison between dynamic integer and static real expressions not implemented'')"
    by simp
  from compare_fail_fast [OF i r u b, of "ex_data ''<''"] tl fits
  have B: "\<exists>d'. init_compare ex_param_real_int (ex_data ''<'') = Inr d'
          \<and> cmpt d' = CMP_LESS
          \<and> flags (left d') AND CMP_REALVAL = 0 \<and> flags (right d') AND CMP_REALVAL = 0"
    by simp
  from i r u te tl A B show ?thesis by blast
qed


subsection \<open>Rounding of a static real operand\<close>

text \<open>
  Within the range of \<^verbatim>\<open>int\<close> the rounding does what the comment of \<open>convert_real_int\<close>
  promises.  Whenever the conversion for an order operator \<open>t\<close> returns, every converted
  value is the ceiling or the floor of the real one, as the operator and the side
  prescribe, and for every integer \<open>a\<close> the integer comparison that
  \<open>evaluate_compare_int\<close> makes with the converted value decides as the comparison of \<open>a\<close>
  with the real value does: \<open>a t r\<close> when the real is the right operand, \<open>r t a\<close> when it
  is the left one.
\<close>

theorem rounding_preserves_comparison:
  assumes "t \<in> {CMP_LESS, CMP_LEQ, CMP_GTR, CMP_GEQ}"
      and "convert_real_int n val t bRight = Inr val'"
      and "k < nat n"
  shows "(bRight \<longrightarrow>
            ivals val' ! k = (if t \<in> {CMP_LESS, CMP_GEQ} then \<lceil>rvals val ! k\<rceil> else \<lfloor>rvals val ! k\<rfloor>)
          \<and> accept_int t a (ivals val' ! k) = accept_real wt t (of_int a) (rvals val ! k))
       \<and> (\<not> bRight \<longrightarrow>
            ivals val' ! k = (if t \<in> {CMP_GTR, CMP_LEQ} then \<lceil>rvals val ! k\<rceil> else \<lfloor>rvals val ! k\<rfloor>)
          \<and> accept_int t (ivals val' ! k) a = accept_real wt t (rvals val ! k) (of_int a))"
proof (cases bRight)
  case True
  from convert_real_int_nth [OF assms(2,3)] True
  have "round_value t (rvals val ! k) = Inr (ivals val' ! k)" by simp
  from round_value_order [OF this] assms(1) True
  show ?thesis
    by (auto simp: less_ceiling_iff le_floor_iff floor_less_iff ceiling_le_iff not_less not_le)
next
  case False
  from convert_real_int_nth [OF assms(2,3)] False
  have "round_value (reverse_comparison_type t) (rvals val ! k) = Inr (ivals val' ! k)" by simp
  from round_value_order [OF this] assms(1) False
  show ?thesis
    by (auto simp: less_ceiling_iff le_floor_iff floor_less_iff ceiling_le_iff not_less not_le)
qed

theorem rounding_preserves_comparison_witness:
  "CMP_LESS \<in> {CMP_LESS, CMP_LEQ, CMP_GTR, CMP_GEQ}
   \<and> convert_real_int 1 \<lparr>flags = 5, ivals = [], rvals = [5 / 2]\<rparr> CMP_LESS True
       = Inr \<lparr>flags = 17, ivals = [3], rvals = [5 / 2]\<rparr>
   \<and> accept_int CMP_LESS 2 3 = accept_real (=) CMP_LESS (of_int 2) (5 / 2)
   \<and> convert_real_int 1 \<lparr>flags = 5, ivals = [], rvals = [5 / 2]\<rparr> CMP_LESS False
       = Inr \<lparr>flags = 17, ivals = [2], rvals = [5 / 2]\<rparr>
   \<and> accept_int CMP_LESS 2 2 = accept_real (=) CMP_LESS (5 / 2) (of_int 2)"
proof -
  have t: "CMP_LESS \<in> {CMP_LESS, CMP_LEQ, CMP_GTR, CMP_GEQ}" by simp
  have k: "(0::nat) < nat 1" by simp
  from rounding_preserves_comparison [OF t ex_convert_right k, of 2 "(=)"]
  have A: "accept_int CMP_LESS 2 3 = accept_real (=) CMP_LESS (of_int 2) (5 / 2)" by simp
  from rounding_preserves_comparison [OF t ex_convert_left k, of 2 "(=)"]
  have B: "accept_int CMP_LESS 2 2 = accept_real (=) CMP_LESS (5 / 2) (of_int 2)" by simp
  from t ex_convert_right ex_convert_left A B show ?thesis by blast
qed

text \<open>
  Outside that range no 32-bit value can stand for the real one.  For the operator \<open><\<close>
  and the real 2147483648 every \<^verbatim>\<open>int\<close> \<open>a\<close> satisfies \<open>a < r\<close>, but whatever value \<open>k\<close> the
  cast leaves behind, \<open>a < k\<close> fails at \<open>a = k\<close>.
\<close>

lemma no_int_for_out_of_range:
  assumes "- (2 ^ 31) \<le> k" and "k < 2 ^ 31"
  shows "accept_real wt CMP_LESS (of_int k) 2147483648" and "\<not> accept_int CMP_LESS k k"
proof -
  have "real_of_int k < real_of_int 2147483648" using assms(2) by (simp only: of_int_less_iff) simp
  then show "accept_real wt CMP_LESS (of_int k) 2147483648" by simp
  show "\<not> accept_int CMP_LESS k k" by simp
qed

text \<open>
  C10 (rounding preserves the comparison) fails on the code for a real outside the range
  of \<^verbatim>\<open>int\<close>.  For \<open>int1 < 2147483648\<close> with a dynamic integer on the left, \<open>init_compare\<close>
  reaches the cast \<^verbatim>\<open>(int)ceil(2147483648.0)\<close> of line 364, which no range check guards and
  whose result is undefined.  The original comparison \<open>1 < 2147483648\<close> holds, while the
  integer comparison with the value that the cast commonly yields, the smallest \<^verbatim>\<open>int\<close>,
  does not.
\<close>

theorem rounding_out_of_range:
  "comparison_type (cmpop (ex_data ''<'')) = CMP_LESS
   \<and> round_value CMP_LESS (val_u_r ex_big_real ! 0) = Inl UndefinedCast
   \<and> init_compare ex_param_int_big (ex_data ''<'') = Inl UndefinedCast
   \<and> accept_real (=) CMP_LESS (of_int 1) (val_u_r ex_big_real ! 0)
   \<and> \<not> accept_int CMP_LESS 1 (- (2 ^ 31))"
proof -
  have t: "comparison_type (cmpop (ex_data ''<'')) = CMP_LESS"
    by (simp add: comparison_type_def c_char_def ex_data_def)
  have r: "round_value CMP_LESS (val_u_r ex_big_real ! 0) = Inl UndefinedCast"
    by (simp add: round_value_def c_int_cast_def c_trunc_def ex_big_real_def)
  have i: "init_compare ex_param_int_big (ex_data ''<'') = Inl UndefinedCast"
    by (simp add: init_compare_def init_comparison_value_def comparison_type_def c_char_def
        ex_param_int_big_def ex_dyn_int_def ex_big_real_def ex_unset_def ex_data_def
        convert_real_int_def round_value_def c_int_cast_def c_trunc_def cmp_flag_defs Let_def)
  have a: "accept_real (=) CMP_LESS (of_int 1) (val_u_r ex_big_real ! 0)"
    by (simp add: ex_big_real_def)
  have b: "\<not> accept_int CMP_LESS 1 (- (2 ^ 31))" by simp
  from t r i a b show ?thesis by blast
qed

end
